theory Spec2Isabelle
  imports Main "HOL-Library.Word"
begin

section \<open>Machine types and the JNI boundary\<close>

text \<open>
  The native side of the HTTP bindings is C code called from Java through JNI. Java's
  \<open>jint\<close>, \<open>jshort\<close> and \<open>jlong\<close> are signed 32-, 16- and 64-bit integers; a native
  pointer travels through Java as a \<open>jlong\<close> and \<open>NULL\<close> is \<open>0\<close>. \<open>size_t\<close> is taken
  as 64 bits wide. Byte strings (cursors, header names and values) are lists of
  characters. A \<open>jstring\<close> argument is modelled by its UTF-8 characters, so a null
  \<open>jstring\<close>, which JNI does not allow \<open>GetStringUTFChars\<close> to receive, is outside the
  model.
\<close>

type_synonym jint = "32 word"
type_synonym jshort = "16 word"
type_synonym jlong = "64 word"
type_synonym size_t = "64 word"
type_synonym ptr = "64 word"
type_synonym bytes = string

datatype jobject = JNull | JRef nat

datatype jvalue = JInt jint | JLong jlong | JBool bool | JObj jobject

text \<open>The cached method ids of the Java classes the native code calls back into.\<close>

datatype jmethodID =
    onHeaders | onHeadersDone | onResponseBody | onResponseComplete | sendOutgoingBody
  | on_connection_complete | on_connection_shutdown
  | onConnectionAcquired | onShutdownComplete

text \<open>
  \<open>struct aws_tls_connection_options\<close>: zero-initialised, or initialised from a TLS
  context and given a server name.
\<close>

datatype aws_tls_connection_options = Tls_zeroed | Tls_from_ctx ptr bytes

record aws_http_connection_manager_options =
  mo_bootstrap :: ptr
  mo_initial_window_size :: size_t
  mo_socket_options :: ptr
  mo_tls_connection_options :: "aws_tls_connection_options option"
  mo_host :: bytes
  mo_port :: "16 word"
  mo_max_connections :: size_t
  mo_shutdown_complete_user_data :: ptr

record aws_http_client_connection_options =
  co_allocator :: ptr
  co_bootstrap :: ptr
  co_host_name :: bytes
  co_port :: "16 word"
  co_socket_options :: ptr
  co_tls_options :: aws_tls_connection_options
  co_user_data :: ptr

record aws_http_request_options =
  ro_method :: bytes
  ro_uri :: bytes
  ro_header_array :: "(bytes \<times> bytes) list"
  ro_num_headers :: jint
  ro_user_data :: ptr

text \<open>
  Everything a native function does to the outside (the JVM, the allocator, the
  mutex, the TLS and HTTP libraries) is recorded, in program order, as a list of effects.
  \<open>Mem_release p\<close> is \<open>aws_mem_release(allocator, p)\<close> with the pointer as the code
  passes it.
\<close>

datatype effect =
    FindClass string
  | ThrowNew string string
  | GetStringUTFChars string
  | Mem_acquire ptr
  | Mem_release ptr
  | NewGlobalRef jobject
  | DeleteGlobalRef jobject
  | GetJavaVM
  | AttachCurrentThreadAsDaemon ptr
  | CallVoidMethod jobject jmethodID "jvalue list"
  | CallBooleanMethod jobject jmethodID "jvalue list"
  | Mutex_init ptr
  | Mutex_lock ptr
  | Mutex_unlock ptr
  | Mutex_clean_up ptr
  | Tls_init_from_ctx ptr
  | Tls_set_server_name bytes
  | Tls_clean_up
  | Byte_buf_init size_t
  | Byte_buf_clean_up ptr
  | Direct_byte_buffer_from_byte_buf ptr
  | Connection_manager_new aws_http_connection_manager_options
  | Connection_manager_release ptr
  | Connection_manager_acquire_connection ptr ptr
  | Connection_manager_release_connection ptr ptr
  | Http_client_connect aws_http_client_connection_options
  | Http_connection_close ptr
  | Http_stream_new_client_request aws_http_request_options

text \<open>
  A native function returns to Java (possibly with an exception pending, which shows as
  a \<open>ThrowNew\<close> effect), or the process dies: a failed \<open>AWS_FATAL_ASSERT\<close> aborts, and
  reading or writing through a null or dead pointer is a crash, and so is releasing a
  pointer that the allocator never returned. Taking a mutex that is already held does not
  return.
\<close>

datatype 'a outcome = Returned 'a | Fatal_assert | Invalid_deref | Blocked | Invalid_free

section \<open>Native structures\<close>

record http_jni_connection =
  native_http_conn :: ptr
  socket_options :: ptr
  tls_options :: ptr
  conn_jvm :: ptr
  java_http_conn :: jobject
  disconnect_requested :: bool

record http_request_jni_async_callback =
  cb_connection :: ptr
  jni_http_callback_handler :: jobject
  java_byte_buffer :: jobject

record jni_byte_buf_pair =
  pair_mem :: ptr
  native_buf_capacity :: size_t
  java_buf :: jobject

record jni_conn_manager =
  rw_lock_held :: bool
  cm_jvm :: ptr
  java_conn_manager :: jobject
  native_conn_manager :: ptr
  max_connections :: size_t
  buf_size :: size_t
  idle_java_native_buf_pairs :: "jni_byte_buf_pair list"

text \<open>Objects of the Java heap that the native code creates or reads.\<close>

datatype jheap_obj =
    ByteArray bytes
  | Header jobject jobject
  | ObjectArray "jobject list"
  | ByteBuffer bytes
  | Opaque

text \<open>
  The native heap holds the three kinds of structure the bindings allocate, by address;
  the Java heap is a list of objects, a reference being an index into it.
\<close>

record world =
  conns :: "ptr \<rightharpoonup> http_jni_connection"
  callbacks :: "ptr \<rightharpoonup> http_request_jni_async_callback"
  managers :: "ptr \<rightharpoonup> jni_conn_manager"
  jheap :: "jheap_obj list"

definition deref :: "(ptr \<rightharpoonup> 'a) \<Rightarrow> ptr \<Rightarrow> 'a option" where
  "deref m p = (if p = 0 then None else m p)"

text \<open>
  What the surroundings answer during one native call: the allocator and its results
  (\<open>0\<close> is a failed allocation), the content of fresh, uninitialised memory, the last
  error string, and the results of the JVM and library calls whose value the code
  inspects.
\<close>

record pair_alloc =
  pa_mem :: ptr
  pa_init_result :: int
  pa_java_buf :: jobject

record native_env =
  aws_default_allocator :: ptr
  aws_last_error_str :: string
  GetJavaVM_result :: jint
  GetJavaVM_vm :: ptr
  mem_acquire_manager :: ptr
  pair_allocs :: "nat \<Rightarrow> pair_alloc"
  connection_manager_new_result :: ptr
  mem_acquire_connection :: ptr
  uninit_connection :: http_jni_connection
  mem_acquire_callback :: ptr
  uninit_callback :: http_request_jni_async_callback

definition AWS_OP_SUCCESS :: int where
  "AWS_OP_SUCCESS = 0"

section \<open>crt.c\<close>

definition aws_jni_get_allocator :: "native_env \<Rightarrow> ptr" where
  "aws_jni_get_allocator e = aws_default_allocator e"

text \<open>
  \<open>aws_jni_throw_runtime_exception\<close> formats the message into 1024 bytes, appends the
  last error into 1280 bytes, and throws a \<open>CrtRuntimeException\<close>; control returns to the
  caller.
\<close>

definition aws_jni_throw_runtime_exception :: "native_env \<Rightarrow> string \<Rightarrow> effect list" where
  "aws_jni_throw_runtime_exception e msg =
     (let buf = take 1023 msg;
          exception = take 1279 (buf @ '' (aws_last_error: '' @ aws_last_error_str e @ '')'')
      in [FindClass ''software/amazon/awssdk/crt/CrtRuntimeException'',
          ThrowNew ''software/amazon/awssdk/crt/CrtRuntimeException'' exception])"

definition aws_jni_byte_cursor_from_jstring :: "string \<Rightarrow> effect list \<times> bytes" where
  "aws_jni_byte_cursor_from_jstring str = ([GetStringUTFChars str], str)"

definition aws_jni_get_thread_env :: "ptr \<Rightarrow> effect list" where
  "aws_jni_get_thread_env vm = [AttachCurrentThreadAsDaemon vm]"

section \<open>http_connection_manager.c\<close>

subsection \<open>The buffer pool\<close>

text \<open>
  \<open>aws_push_new_native_java_buf_pair\<close>: allocate one pair, its native buffer of
  \<open>body_buf_size\<close> bytes and the direct byte buffer over it; each failure is a fatal
  assertion. The new pair goes to the front of the list.
\<close>

definition aws_push_new_native_java_buf_pair ::
  "pair_alloc \<Rightarrow> jni_byte_buf_pair list \<Rightarrow> size_t \<Rightarrow> effect list \<times> jni_byte_buf_pair list outcome"
where
  "aws_push_new_native_java_buf_pair pa lst body_buf_size =
     (if pa_mem pa = 0 then ([Mem_acquire (pa_mem pa)], Fatal_assert)
      else if pa_init_result pa \<noteq> AWS_OP_SUCCESS then
        ([Mem_acquire (pa_mem pa), Byte_buf_init body_buf_size], Fatal_assert)
      else if pa_java_buf pa = JNull then
        ([Mem_acquire (pa_mem pa), Byte_buf_init body_buf_size,
          Direct_byte_buffer_from_byte_buf (pa_mem pa)], Fatal_assert)
      else
        ([Mem_acquire (pa_mem pa), Byte_buf_init body_buf_size,
          Direct_byte_buffer_from_byte_buf (pa_mem pa), NewGlobalRef (pa_java_buf pa)],
         Returned (\<lparr>pair_mem = pa_mem pa, native_buf_capacity = body_buf_size,
                     java_buf = pa_java_buf pa\<rparr> # lst)))"

text \<open>
  The loop \<open>for (int i = 0; i < jni_conn_manager->max_connections; i++)\<close> of the
  constructor. The counter is a natural number: the bound is the \<open>size_t\<close> image of a
  positive \<open>jint\<close>, so \<open>i\<close> stays below \<open>2 ^ 31\<close> and never overflows.
\<close>

function push_pairs_loop ::
  "native_env \<Rightarrow> size_t \<Rightarrow> size_t \<Rightarrow> nat \<Rightarrow> jni_byte_buf_pair list
     \<Rightarrow> effect list \<times> jni_byte_buf_pair list outcome"
where
  "push_pairs_loop e maxc body_buf_size i lst =
     (if i < unat maxc then
        (case aws_push_new_native_java_buf_pair (pair_allocs e i) lst body_buf_size of
           (ef, Returned lst') \<Rightarrow>
             (case push_pairs_loop e maxc body_buf_size (i + 1) lst' of
                (ef', r) \<Rightarrow> (ef @ ef', r))
         | (ef, Fatal_assert) \<Rightarrow> (ef, Fatal_assert)
         | (ef, Invalid_deref) \<Rightarrow> (ef, Invalid_deref)
         | (ef, Blocked) \<Rightarrow> (ef, Blocked)
         | (ef, Invalid_free) \<Rightarrow> (ef, Invalid_free))
      else ([], Returned lst))"
  by pat_completeness auto
termination
  by (relation "measure (\<lambda>(e, maxc, body_buf_size, i, lst). unat maxc - i)") auto

text \<open>\<open>httpConnectionManagerNew\<close>: the checks, then the construction under the lock.\<close>

definition httpConnectionManagerNew ::
  "native_env \<Rightarrow> jobject \<Rightarrow> jlong \<Rightarrow> jlong \<Rightarrow> jlong \<Rightarrow> jint \<Rightarrow> jint \<Rightarrow> string \<Rightarrow> jint \<Rightarrow> jint
     \<Rightarrow> world \<Rightarrow> effect list \<times> (jlong \<times> world) outcome"
where
  "httpConnectionManagerNew e conn_manager_jobject jni_client_bootstrap jni_socket_options
       jni_tls_ctx jni_buf_size jni_window_size jni_endpoint jni_port jni_max_conns w =
     (if jni_client_bootstrap = 0 then
        (aws_jni_throw_runtime_exception e ''ClientBootstrap can't be null'', Returned (0, w))
      else if jni_socket_options = 0 then
        (aws_jni_throw_runtime_exception e ''SocketOptions can't be null'', Returned (0, w))
      else
        let allocator = aws_jni_get_allocator e in
        if allocator = 0 then ([], Fatal_assert)
        else
          let (ef_endpoint, endpoint) = aws_jni_byte_cursor_from_jstring jni_endpoint in
          if jni_port \<le>s 0 \<or> 65535 <s jni_port then
            (ef_endpoint @ aws_jni_throw_runtime_exception e ''Port must be between 1 and 65535'',
             Returned (0, w))
          else if jni_window_size \<le>s 0 then
            (ef_endpoint @ aws_jni_throw_runtime_exception e ''Window Size must be > 0'',
             Returned (0, w))
          else if jni_max_conns \<le>s 0 then
            (ef_endpoint @ aws_jni_throw_runtime_exception e ''Max Connections must be > 0'',
             Returned (0, w))
          else
            let port = (ucast jni_port :: 16 word);
                use_tls = (jni_tls_ctx \<noteq> 0);
                tls_conn_options =
                  (if use_tls then Tls_from_ctx jni_tls_ctx endpoint else Tls_zeroed);
                ef_tls =
                  (if use_tls then [Tls_init_from_ctx jni_tls_ctx, Tls_set_server_name endpoint]
                   else []);
                m = mem_acquire_manager e;
                ef_new = ef_endpoint @ ef_tls @ [Mem_acquire m]
            in
            if m = 0 then (ef_new, Invalid_deref)
            else
              let maxc = (scast jni_max_conns :: size_t);
                  bsize = (scast jni_buf_size :: size_t);
                  ef_lock = [Mutex_init m, Mutex_lock m, NewGlobalRef conn_manager_jobject]
              in
              (case push_pairs_loop e maxc bsize 0 [] of
                 (ef_pairs, Returned pairs) \<Rightarrow>
                   if GetJavaVM_result e \<noteq> 0 then
                     (ef_new @ ef_lock @ ef_pairs @ [GetJavaVM], Fatal_assert)
                   else
                     let manager_options =
                           \<lparr>mo_bootstrap = jni_client_bootstrap,
                            mo_initial_window_size = scast jni_window_size,
                            mo_socket_options = jni_socket_options,
                            mo_tls_connection_options =
                              (if use_tls then Some tls_conn_options else None),
                            mo_host = endpoint,
                            mo_port = port,
                            mo_max_connections = scast jni_max_conns,
                            mo_shutdown_complete_user_data = m\<rparr>;
                         conn_manager = connection_manager_new_result e;
                         jni_conn_manager =
                           \<lparr>rw_lock_held = False,
                            cm_jvm = GetJavaVM_vm e,
                            java_conn_manager = conn_manager_jobject,
                            native_conn_manager = conn_manager,
                            max_connections = maxc,
                            buf_size = bsize,
                            idle_java_native_buf_pairs = pairs\<rparr>
                     in
                     (ef_new @ ef_lock @ ef_pairs @
                        [GetJavaVM, Connection_manager_new manager_options, Mutex_unlock m] @
                        (if use_tls then [Tls_clean_up] else []),
                      Returned (m, w\<lparr>managers := (managers w)(m \<mapsto> jni_conn_manager)\<rparr>))
               | (ef_pairs, Fatal_assert) \<Rightarrow> (ef_new @ ef_lock @ ef_pairs, Fatal_assert)
               | (ef_pairs, Invalid_deref) \<Rightarrow> (ef_new @ ef_lock @ ef_pairs, Invalid_deref)
               | (ef_pairs, Blocked) \<Rightarrow> (ef_new @ ef_lock @ ef_pairs, Blocked)
               | (ef_pairs, Invalid_free) \<Rightarrow> (ef_new @ ef_lock @ ef_pairs, Invalid_free)))"

text \<open>
  \<open>struct jni_byte_buf_pair\<close> lays out \<open>native_buf\<close> (a \<open>struct aws_byte_buf\<close>: length,
  buffer, capacity, allocator), then \<open>java_buf\<close>, then \<open>list_handle\<close>. With 8-byte sizes
  and pointers the list node lies 40 bytes into the pair's block; on any layout it lies
  behind two non-empty members, never at the start.
\<close>

definition list_handle_offset :: size_t where
  "list_handle_offset = 40"

text \<open>
  \<open>aws_mem_release\<close> passes its pointer on to the default allocator's \<open>free\<close>, which
  accepts only the address \<open>aws_mem_acquire\<close> returned for the block, its start.
\<close>

definition aws_mem_release_valid :: "ptr \<Rightarrow> ptr \<Rightarrow> bool" where
  "aws_mem_release_valid block_start p = (p = block_start)"

text \<open>
  The drain loop of the shutdown-complete callback: pop the front node, find its pair
  (\<open>AWS_CONTAINER_OF\<close>), release the pair's Java reference and its native buffer, then
  call \<open>aws_mem_release(allocator, node)\<close> and count the node. The pointer released is the
  node's, \<open>&pair->list_handle\<close>, not the pair's.
\<close>

fun drain_pairs :: "jni_byte_buf_pair list \<Rightarrow> size_t \<Rightarrow> effect list \<times> size_t outcome" where
  "drain_pairs [] num_nodes = ([], Returned num_nodes)"
| "drain_pairs (pair # rest) num_nodes =
     (let node = pair_mem pair + list_handle_offset;
          ef = [DeleteGlobalRef (java_buf pair), Byte_buf_clean_up (pair_mem pair),
                Mem_release node]
      in
      if aws_mem_release_valid (pair_mem pair) node then
        (case drain_pairs rest (num_nodes + 1) of (ef', r) \<Rightarrow> (ef @ ef', r))
      else (ef, Invalid_free))"

text \<open>
  \<open>s_on_http_conn_manager_shutdown_complete_callback\<close>: takes the lock, calls Java's
  \<open>onShutdownComplete\<close>, drains the pool, asserts the count, and frees the manager. The
  lock is not released.
\<close>

definition s_on_http_conn_manager_shutdown_complete_callback ::
  "ptr \<Rightarrow> world \<Rightarrow> effect list \<times> (unit \<times> world) outcome"
where
  "s_on_http_conn_manager_shutdown_complete_callback user_data w =
     (case deref (managers w) user_data of
        None \<Rightarrow> ([], Invalid_deref)
      | Some jni_conn_manager \<Rightarrow>
          if rw_lock_held jni_conn_manager then ([Mutex_lock user_data], Blocked)
          else
            let ef_call =
                  [Mutex_lock user_data] @ aws_jni_get_thread_env (cm_jvm jni_conn_manager) @
                  [CallVoidMethod (java_conn_manager jni_conn_manager) onShutdownComplete []]
            in
            (case drain_pairs (idle_java_native_buf_pairs jni_conn_manager) 0 of
               (ef_drain, Returned num_nodes) \<Rightarrow>
                 if max_connections jni_conn_manager \<noteq> num_nodes then
                   (ef_call @ ef_drain, Fatal_assert)
                 else
                   (ef_call @ ef_drain @
                      [DeleteGlobalRef (java_conn_manager jni_conn_manager),
                       Mem_release user_data, Mutex_clean_up user_data],
                    Returned ((), w\<lparr>managers := (managers w)(user_data := None)\<rparr>))
             | (ef_drain, Fatal_assert) \<Rightarrow> (ef_call @ ef_drain, Fatal_assert)
             | (ef_drain, Invalid_deref) \<Rightarrow> (ef_call @ ef_drain, Invalid_deref)
             | (ef_drain, Blocked) \<Rightarrow> (ef_call @ ef_drain, Blocked)
             | (ef_drain, Invalid_free) \<Rightarrow> (ef_call @ ef_drain, Invalid_free)))"

text \<open>
  \<open>httpConnectionManagerRelease\<close>: under the lock, forget the native manager and release
  it; the shutdown-complete callback fires later.
\<close>

definition httpConnectionManagerRelease ::
  "native_env \<Rightarrow> jlong \<Rightarrow> world \<Rightarrow> effect list \<times> (unit \<times> world) outcome"
where
  "httpConnectionManagerRelease e jni_conn_manager_ptr w =
     (if jni_conn_manager_ptr = 0 then
        (aws_jni_throw_runtime_exception e ''Connection Manager can't be null'', Returned ((), w))
      else
        (case deref (managers w) jni_conn_manager_ptr of
           None \<Rightarrow> ([], Invalid_deref)
         | Some jni_conn_manager \<Rightarrow>
             if rw_lock_held jni_conn_manager then ([Mutex_lock jni_conn_manager_ptr], Blocked)
             else
               let native_manager = native_conn_manager jni_conn_manager in
               ([Mutex_lock jni_conn_manager_ptr, Connection_manager_release native_manager,
                 Mutex_unlock jni_conn_manager_ptr],
                Returned ((), w\<lparr>managers := (managers w)(jni_conn_manager_ptr \<mapsto>
                                  jni_conn_manager\<lparr>native_conn_manager := 0\<rparr>)\<rparr>))))"

definition s_on_http_conn_acquisition_callback ::
  "ptr \<Rightarrow> jint \<Rightarrow> ptr \<Rightarrow> world \<Rightarrow> effect list \<times> (unit \<times> world) outcome"
where
  "s_on_http_conn_acquisition_callback connection error_code user_data w =
     (case deref (managers w) user_data of
        None \<Rightarrow> ([], Invalid_deref)
      | Some jni_conn_manager \<Rightarrow>
          (aws_jni_get_thread_env (cm_jvm jni_conn_manager) @
             [CallVoidMethod (java_conn_manager jni_conn_manager) onConnectionAcquired
                [JLong connection, JInt error_code]],
           Returned ((), w)))"

definition httpConnectionManagerAcquireConnection ::
  "native_env \<Rightarrow> jobject \<Rightarrow> jlong \<Rightarrow> world \<Rightarrow> effect list \<times> (unit \<times> world) outcome"
where
  "httpConnectionManagerAcquireConnection e conn_manager_jobject jni_conn_manager_ptr w =
     (if jni_conn_manager_ptr = 0 then
        (aws_jni_throw_runtime_exception e ''Connection Manager can't be null'', Returned ((), w))
      else
        (case deref (managers w) jni_conn_manager_ptr of
           None \<Rightarrow> ([], Invalid_deref)
         | Some jni_conn_manager \<Rightarrow>
             ([Connection_manager_acquire_connection (native_conn_manager jni_conn_manager)
                 jni_conn_manager_ptr],
              Returned ((), w))))"

definition httpConnectionManagerReleaseConnection ::
  "native_env \<Rightarrow> jlong \<Rightarrow> jlong \<Rightarrow> world \<Rightarrow> effect list \<times> (unit \<times> world) outcome"
where
  "httpConnectionManagerReleaseConnection e jni_conn_manager jni_conn w =
     (if jni_conn_manager = 0 then
        (aws_jni_throw_runtime_exception e ''Connection Manager can't be null'', Returned ((), w))
      else if jni_conn = 0 then
        (aws_jni_throw_runtime_exception e ''Connection can't be null'', Returned ((), w))
      else
        ([Connection_manager_release_connection jni_conn_manager jni_conn], Returned ((), w)))"

section \<open>http_connection.c\<close>

subsection \<open>Connection life cycle\<close>

definition s_on_http_conn_setup ::
  "ptr \<Rightarrow> jint \<Rightarrow> ptr \<Rightarrow> world \<Rightarrow> effect list \<times> (unit \<times> world) outcome"
where
  "s_on_http_conn_setup connection error_code user_data w =
     (case deref (conns w) user_data of
        None \<Rightarrow> ([], Invalid_deref)
      | Some http_jni_conn \<Rightarrow>
          ((if java_http_conn http_jni_conn \<noteq> JNull then
              aws_jni_get_thread_env (conn_jvm http_jni_conn) @
              [CallVoidMethod (java_http_conn http_jni_conn) on_connection_complete
                 [JInt error_code]]
            else []),
           Returned ((), w\<lparr>conns := (conns w)(user_data \<mapsto>
                             http_jni_conn\<lparr>native_http_conn := connection\<rparr>)\<rparr>)))"

definition s_on_http_conn_shutdown ::
  "ptr \<Rightarrow> jint \<Rightarrow> ptr \<Rightarrow> world \<Rightarrow> effect list \<times> (unit \<times> world) outcome"
where
  "s_on_http_conn_shutdown connection error_code user_data w =
     (case deref (conns w) user_data of
        None \<Rightarrow> ([], Invalid_deref)
      | Some http_jni_conn \<Rightarrow>
          ((if java_http_conn http_jni_conn \<noteq> JNull then
              aws_jni_get_thread_env (conn_jvm http_jni_conn) @
              [CallVoidMethod (java_http_conn http_jni_conn) on_connection_shutdown
                 [JInt error_code]]
            else []),
           Returned ((), w)))"

text \<open>
  \<open>httpConnectionNew\<close>. The \<open>jshort\<close> port is read as \<open>uint16_t\<close>, the same 16 bits. The
  connection structure comes from \<open>aws_mem_acquire\<close> uninitialised; only the Java
  reference and the JVM are stored here. \<open>assert(jvmresult == 0)\<close> is taken as compiled
  in.
\<close>

definition httpConnectionNew ::
  "native_env \<Rightarrow> jobject \<Rightarrow> jlong \<Rightarrow> jlong \<Rightarrow> jlong \<Rightarrow> string \<Rightarrow> jshort
     \<Rightarrow> world \<Rightarrow> effect list \<times> (jlong \<times> world) outcome"
where
  "httpConnectionNew e http_conn_jobject jni_client_bootstrap jni_socket_options jni_tls_ctx
       jni_endpoint jni_port w =
     (if jni_client_bootstrap = 0 then
        (aws_jni_throw_runtime_exception e
           ''HttpConnection.httpConnectionNew: jni_client_bootstrap must not be null'',
         Returned (0, w))
      else if jni_socket_options = 0 then
        (aws_jni_throw_runtime_exception e
           ''HttpConnection.httpConnectionNew: jni_socket_options must not be null'',
         Returned (0, w))
      else
        let allocator = aws_jni_get_allocator e;
            (ef_endpoint, endpoint) = aws_jni_byte_cursor_from_jstring jni_endpoint;
            port = jni_port
        in
        if port = 0 then
          (ef_endpoint @ aws_jni_throw_runtime_exception e
             ''HttpConnection.httpConnectionNew: Port must be between 1 and 65535'',
           Returned (0, w))
        else
          let use_tls = (\<not> (port = 80 \<or> port = 8080)) in
          if use_tls \<and> jni_tls_ctx = 0 then
            (ef_endpoint @ aws_jni_throw_runtime_exception e
               ''HttpConnection.httpConnectionNew: jni_tls_ctx_options must not be null'',
             Returned (0, w))
          else
            let tls_conn_options =
                  (if use_tls then Tls_from_ctx jni_tls_ctx endpoint else Tls_zeroed);
                ef_tls =
                  (if use_tls then [Tls_init_from_ctx jni_tls_ctx, Tls_set_server_name endpoint]
                   else []);
                http_jni_conn = mem_acquire_connection e;
                ef_new = ef_endpoint @ ef_tls @ [Mem_acquire http_jni_conn]
            in
            if http_jni_conn = 0 then
              (ef_new @ aws_jni_throw_runtime_exception e
                 ''HttpConnection.httpConnectionNew: Out of memory allocating JNI connection'',
               Returned (0, w))
            else if GetJavaVM_result e \<noteq> 0 then
              (ef_new @ [NewGlobalRef http_conn_jobject, GetJavaVM], Fatal_assert)
            else
              let http_options =
                    \<lparr>co_allocator = allocator,
                     co_bootstrap = jni_client_bootstrap,
                     co_host_name = endpoint,
                     co_port = port,
                     co_socket_options = jni_socket_options,
                     co_tls_options = tls_conn_options,
                     co_user_data = http_jni_conn\<rparr>;
                  conn =
                    (uninit_connection e)
                      \<lparr>java_http_conn := http_conn_jobject, conn_jvm := GetJavaVM_vm e\<rparr>
              in
              (ef_new @ [NewGlobalRef http_conn_jobject, GetJavaVM,
                         Http_client_connect http_options] @
                 (if use_tls then [Tls_clean_up] else []),
               Returned (http_jni_conn, w\<lparr>conns := (conns w)(http_jni_conn \<mapsto> conn)\<rparr>)))"

text \<open>\<open>httpConnectionClose\<close> has no check on its argument: it writes through it.\<close>

definition httpConnectionClose ::
  "jlong \<Rightarrow> world \<Rightarrow> effect list \<times> (unit \<times> world) outcome"
where
  "httpConnectionClose jni_connection w =
     (case deref (conns w) jni_connection of
        None \<Rightarrow> ([], Invalid_deref)
      | Some http_jni_conn \<Rightarrow>
          ([Http_connection_close (native_http_conn http_jni_conn)],
           Returned ((), w\<lparr>conns := (conns w)(jni_connection \<mapsto>
                             http_jni_conn\<lparr>disconnect_requested := True\<rparr>)\<rparr>)))"

definition httpConnectionDestroy ::
  "native_env \<Rightarrow> jlong \<Rightarrow> world \<Rightarrow> effect list \<times> (unit \<times> world) outcome"
where
  "httpConnectionDestroy e jni_connection w =
     (case deref (conns w) jni_connection of
        None \<Rightarrow> ([], Invalid_deref)
      | Some http_jni_conn \<Rightarrow>
          ((if java_http_conn http_jni_conn \<noteq> JNull then
              [DeleteGlobalRef (java_http_conn http_jni_conn)]
            else []) @ [Mem_release jni_connection],
           Returned ((), w\<lparr>conns := (conns w)(jni_connection := None)\<rparr>)))"

subsection \<open>The Java heap\<close>

definition jheap_get :: "jheap_obj list \<Rightarrow> jobject \<Rightarrow> jheap_obj option" where
  "jheap_get h r =
     (case r of JNull \<Rightarrow> None | JRef n \<Rightarrow> if n < length h then Some (h ! n) else None)"

definition jheap_new :: "jheap_obj list \<Rightarrow> jheap_obj \<Rightarrow> jheap_obj list \<times> jobject" where
  "jheap_new h obj = (h @ [obj], JRef (length h))"

text \<open>\<open>SetObjectField\<close> on the \<open>name\<close> and on the \<open>value\<close> field of a header object.\<close>

definition set_header_name :: "jheap_obj list \<Rightarrow> jobject \<Rightarrow> jobject \<Rightarrow> jheap_obj list" where
  "set_header_name h r v =
     (case r of
        JNull \<Rightarrow> h
      | JRef n \<Rightarrow>
          (case jheap_get h r of
             Some (Header name val) \<Rightarrow> h[n := Header v val]
           | _ \<Rightarrow> h))"

definition set_header_value :: "jheap_obj list \<Rightarrow> jobject \<Rightarrow> jobject \<Rightarrow> jheap_obj list" where
  "set_header_value h r v =
     (case r of
        JNull \<Rightarrow> h
      | JRef n \<Rightarrow>
          (case jheap_get h r of
             Some (Header name val) \<Rightarrow> h[n := Header name v]
           | _ \<Rightarrow> h))"

definition aws_jni_byte_array_from_cursor ::
  "jheap_obj list \<Rightarrow> bytes \<Rightarrow> jheap_obj list \<times> jobject"
where
  "aws_jni_byte_array_from_cursor h native_data = jheap_new h (ByteArray native_data)"

definition aws_jni_byte_buffer_copy_from_cursor ::
  "jheap_obj list \<Rightarrow> bytes \<Rightarrow> jheap_obj list \<times> jobject"
where
  "aws_jni_byte_buffer_copy_from_cursor h native_data =
     (let (h1, jArray) = aws_jni_byte_array_from_cursor h native_data
      in jheap_new h1 (ByteBuffer native_data))"

text \<open>
  Reading the request headers out of the Java array: each element is a header object
  whose two fields are byte arrays. A null or ill-typed reference crashes the JVM.
\<close>

fun read_headers :: "jheap_obj list \<Rightarrow> jobject list \<Rightarrow> (bytes \<times> bytes) list option" where
  "read_headers h [] = Some []"
| "read_headers h (jHeader # rest) =
     (case jheap_get h jHeader of
        Some (Header jname jvalue) \<Rightarrow>
          (case (jheap_get h jname, jheap_get h jvalue) of
             (Some (ByteArray name), Some (ByteArray val)) \<Rightarrow>
               (case read_headers h rest of
                  None \<Rightarrow> None
                | Some headers \<Rightarrow> Some ((name, val) # headers))
           | _ \<Rightarrow> None)
      | _ \<Rightarrow> None)"

subsection \<open>Executing a request\<close>

definition jni_http_request_async_callback_new ::
  "native_env \<Rightarrow> ptr \<Rightarrow> jobject \<Rightarrow> world \<Rightarrow> effect list \<times> (ptr \<times> world) outcome"
where
  "jni_http_request_async_callback_new e conn java_callback_handler w =
     (let callback = mem_acquire_callback e in
      if callback = 0 then ([Mem_acquire callback], Returned (0, w))
      else
        (case deref (conns w) conn of
           None \<Rightarrow> ([Mem_acquire callback], Invalid_deref)
         | Some c \<Rightarrow>
             ([Mem_acquire callback] @ aws_jni_get_thread_env (conn_jvm c) @
                (if java_callback_handler \<noteq> JNull then [NewGlobalRef java_callback_handler]
                 else []),
              Returned (callback,
                w\<lparr>callbacks := (callbacks w)(callback \<mapsto>
                     (uninit_callback e)
                       \<lparr>cb_connection := conn,
                        jni_http_callback_handler := java_callback_handler\<rparr>)\<rparr>))))"

definition httpConnectionExecuteRequest ::
  "native_env \<Rightarrow> jlong \<Rightarrow> string \<Rightarrow> string \<Rightarrow> jobject \<Rightarrow> jobject
     \<Rightarrow> world \<Rightarrow> effect list \<times> (unit \<times> world) outcome"
where
  "httpConnectionExecuteRequest e jni_connection jni_method jni_uri jni_headers
       jni_callback_handler w =
     (if jni_connection = 0 then
        (aws_jni_throw_runtime_exception e ''HttpConnection.ExecuteRequest: Invalid connection'',
         Returned ((), w))
      else if jni_callback_handler = JNull then
        (aws_jni_throw_runtime_exception e ''HttpConnection.ExecuteRequest: Invalid handler'',
         Returned ((), w))
      else
        (case jni_http_request_async_callback_new e jni_connection jni_callback_handler w of
           (ef_cb, Returned (callback_handler, w1)) \<Rightarrow>
             if callback_handler = 0 then
               (ef_cb @ aws_jni_throw_runtime_exception e
                  ''HttpConnection.ExecuteRequest: Unable to allocate handler'',
                Returned ((), w1))
             else
               let (ef_method, method) = aws_jni_byte_cursor_from_jstring jni_method;
                   (ef_uri, uri) = aws_jni_byte_cursor_from_jstring jni_uri
               in
               (case jheap_get (jheap w1) jni_headers of
                  Some (ObjectArray elems) \<Rightarrow>
                    (case read_headers (jheap w1) elems of
                       None \<Rightarrow> (ef_cb @ ef_method @ ef_uri, Invalid_deref)
                     | Some headers \<Rightarrow>
                         (ef_cb @ ef_method @ ef_uri @
                            [Http_stream_new_client_request
                               \<lparr>ro_method = method, ro_uri = uri, ro_header_array = headers,
                                ro_num_headers = of_nat (length elems),
                                ro_user_data = callback_handler\<rparr>],
                          Returned ((), w1)))
                | _ \<Rightarrow> (ef_cb @ ef_method @ ef_uri, Invalid_deref))
         | (ef_cb, Fatal_assert) \<Rightarrow> (ef_cb, Fatal_assert)
         | (ef_cb, Invalid_deref) \<Rightarrow> (ef_cb, Invalid_deref)
         | (ef_cb, Blocked) \<Rightarrow> (ef_cb, Blocked)
         | (ef_cb, Invalid_free) \<Rightarrow> (ef_cb, Invalid_free)))"

subsection \<open>Response stream callbacks\<close>

text \<open>
  What the callbacks read from the native stream: the return value of
  \<open>aws_http_stream_get_incoming_response_status\<close> and the content of the local
  \<open>resp_status\<close> after the call (which the callback never initialises itself).
\<close>

record aws_http_stream =
  get_incoming_response_status :: jint
  resp_status_after :: jint

text \<open>
  The loop of \<open>s_java_headers_array_from_native\<close>: for each native header a new header
  object and two byte arrays, stored into the object's fields.
\<close>

fun headers_loop :: "jheap_obj list \<Rightarrow> (bytes \<times> bytes) list \<Rightarrow> jheap_obj list" where
  "headers_loop h [] = h"
| "headers_loop h (header # rest) =
     (let (h1, jHeader) = jheap_new h (Header JNull JNull);
          (h2, actual_name) = aws_jni_byte_array_from_cursor h1 (fst header);
          (h3, actual_value) = aws_jni_byte_array_from_cursor h2 (snd header);
          h4 = set_header_name h3 jHeader actual_name;
          h5 = set_header_value h4 jHeader actual_value
      in headers_loop h5 rest)"

text \<open>
  \<open>NewObjectArray(env, num_headers, header_class, NULL)\<close> makes an array of
  \<open>num_headers\<close> null elements; the array is returned after the loop.
\<close>

definition s_java_headers_array_from_native ::
  "ptr \<Rightarrow> (bytes \<times> bytes) list \<Rightarrow> world \<Rightarrow> effect list \<times> (jobject \<times> world) outcome"
where
  "s_java_headers_array_from_native callback header_array w =
     (case deref (callbacks w) callback of
        None \<Rightarrow> ([], Invalid_deref)
      | Some cb \<Rightarrow>
          (case deref (conns w) (cb_connection cb) of
             None \<Rightarrow> ([], Invalid_deref)
           | Some c \<Rightarrow>
               let num_headers = length header_array;
                   (h1, myArray) = jheap_new (jheap w) (ObjectArray (replicate num_headers JNull));
                   h2 = headers_loop h1 header_array
               in (aws_jni_get_thread_env (conn_jvm c), Returned (myArray, w\<lparr>jheap := h2\<rparr>))))"

definition s_on_incoming_headers_fn ::
  "aws_http_stream \<Rightarrow> (bytes \<times> bytes) list \<Rightarrow> ptr \<Rightarrow> world
     \<Rightarrow> effect list \<times> (unit \<times> world) outcome"
where
  "s_on_incoming_headers_fn stream header_array user_data w =
     (case deref (callbacks w) user_data of
        None \<Rightarrow> ([], Invalid_deref)
      | Some callback \<Rightarrow>
          (case deref (conns w) (cb_connection callback) of
             None \<Rightarrow> ([], Invalid_deref)
           | Some c \<Rightarrow>
               let ef_env = aws_jni_get_thread_env (conn_jvm c) in
               (case s_java_headers_array_from_native user_data header_array w of
                  (ef_arr, Returned (jHeaders, w1)) \<Rightarrow>
                    let err_code = get_incoming_response_status stream;
                        resp_status = resp_status_after stream
                    in
                    (ef_env @ ef_arr @
                       (if err_code \<noteq> 0 then
                          [CallVoidMethod (jni_http_callback_handler callback) onResponseComplete
                             [JInt err_code]]
                        else []) @
                       [CallVoidMethod (jni_http_callback_handler callback) onHeaders
                          [JInt resp_status, JObj jHeaders]],
                     Returned ((), w1))
                | (ef_arr, Fatal_assert) \<Rightarrow> (ef_env @ ef_arr, Fatal_assert)
                | (ef_arr, Invalid_deref) \<Rightarrow> (ef_env @ ef_arr, Invalid_deref)
                | (ef_arr, Blocked) \<Rightarrow> (ef_env @ ef_arr, Blocked)
                | (ef_arr, Invalid_free) \<Rightarrow> (ef_env @ ef_arr, Invalid_free))))"

definition s_on_incoming_header_block_done_fn ::
  "aws_http_stream \<Rightarrow> bool \<Rightarrow> ptr \<Rightarrow> world \<Rightarrow> effect list \<times> (unit \<times> world) outcome"
where
  "s_on_incoming_header_block_done_fn stream has_body user_data w =
     (case deref (callbacks w) user_data of
        None \<Rightarrow> ([], Invalid_deref)
      | Some callback \<Rightarrow>
          (case deref (conns w) (cb_connection callback) of
             None \<Rightarrow> ([], Invalid_deref)
           | Some c \<Rightarrow>
               (aws_jni_get_thread_env (conn_jvm c) @
                  [CallVoidMethod (jni_http_callback_handler callback) onHeadersDone
                     [JBool has_body]],
                Returned ((), w))))"

definition s_on_stream_complete_fn ::
  "aws_http_stream \<Rightarrow> jint \<Rightarrow> ptr \<Rightarrow> world \<Rightarrow> effect list \<times> (unit \<times> world) outcome"
where
  "s_on_stream_complete_fn stream error_code user_data w =
     (case deref (callbacks w) user_data of
        None \<Rightarrow> ([], Invalid_deref)
      | Some callback \<Rightarrow>
          (case deref (conns w) (cb_connection callback) of
             None \<Rightarrow> ([], Invalid_deref)
           | Some c \<Rightarrow>
               (aws_jni_get_thread_env (conn_jvm c) @
                  [CallVoidMethod (jni_http_callback_handler callback) onResponseComplete
                     [JInt error_code]],
                Returned ((), w))))"

definition s_on_incoming_body_fn ::
  "aws_http_stream \<Rightarrow> bytes \<Rightarrow> ptr \<Rightarrow> world \<Rightarrow> effect list \<times> (unit \<times> world) outcome"
where
  "s_on_incoming_body_fn stream data user_data w =
     (case deref (callbacks w) user_data of
        None \<Rightarrow> ([], Invalid_deref)
      | Some callback \<Rightarrow>
          (case deref (conns w) (cb_connection callback) of
             None \<Rightarrow> ([], Invalid_deref)
           | Some c \<Rightarrow>
               let (h1, jByteBuffer) = aws_jni_byte_buffer_copy_from_cursor (jheap w) data in
               (aws_jni_get_thread_env (conn_jvm c) @
                  [CallVoidMethod (jni_http_callback_handler callback) onResponseBody
                     [JObj jByteBuffer]],
                Returned ((), w\<lparr>jheap := h1\<rparr>))))"

text \<open>
  \<open>s_stream_outgoing_body_fn\<close>: the write buffer is handed to Java's \<open>sendOutgoingBody\<close>
  as a direct byte buffer; \<open>isDone\<close> is what the Java method answers.
\<close>

datatype aws_http_outgoing_body_state =
    AWS_HTTP_OUTGOING_BODY_IN_PROGRESS | AWS_HTTP_OUTGOING_BODY_DONE

definition s_stream_outgoing_body_fn ::
  "aws_http_stream \<Rightarrow> bytes \<Rightarrow> bool \<Rightarrow> ptr \<Rightarrow> world
     \<Rightarrow> effect list \<times> (aws_http_outgoing_body_state \<times> world) outcome"
where
  "s_stream_outgoing_body_fn stream buf isDone user_data w =
     (case deref (callbacks w) user_data of
        None \<Rightarrow> ([], Invalid_deref)
      | Some callback \<Rightarrow>
          (case deref (conns w) (cb_connection callback) of
             None \<Rightarrow> ([], Invalid_deref)
           | Some c \<Rightarrow>
               let (h1, jDirectByteBuffer) = jheap_new (jheap w) (ByteBuffer buf) in
               (aws_jni_get_thread_env (conn_jvm c) @
                  [CallBooleanMethod (jni_http_callback_handler callback) sendOutgoingBody
                     [JObj jDirectByteBuffer]],
                Returned
                  (if isDone then AWS_HTTP_OUTGOING_BODY_DONE
                   else AWS_HTTP_OUTGOING_BODY_IN_PROGRESS,
                   w\<lparr>jheap := h1\<rparr>))))"

text \<open>
  The native HTTP library drives one request by calling the callbacks registered in
  \<open>request_options\<close> (\<open>on_response_headers\<close>, \<open>on_response_header_block_done\<close>,
  \<open>on_response_body\<close>, \<open>on_complete\<close>), each with the request's \<open>user_data\<close>.
\<close>

datatype stream_event =
    Incoming_headers aws_http_stream "(bytes \<times> bytes) list"
  | Incoming_header_block_done aws_http_stream bool
  | Incoming_body aws_http_stream bytes
  | Stream_complete aws_http_stream jint

fun invoke_stream_callback ::
  "ptr \<Rightarrow> stream_event \<Rightarrow> world \<Rightarrow> effect list \<times> (unit \<times> world) outcome"
where
  "invoke_stream_callback user_data (Incoming_headers stream header_array) w =
     s_on_incoming_headers_fn stream header_array user_data w"
| "invoke_stream_callback user_data (Incoming_header_block_done stream has_body) w =
     s_on_incoming_header_block_done_fn stream has_body user_data w"
| "invoke_stream_callback user_data (Incoming_body stream data) w =
     s_on_incoming_body_fn stream data user_data w"
| "invoke_stream_callback user_data (Stream_complete stream error_code) w =
     s_on_stream_complete_fn stream error_code user_data w"

fun run_stream ::
  "ptr \<Rightarrow> stream_event list \<Rightarrow> world \<Rightarrow> effect list \<times> (unit \<times> world) outcome"
where
  "run_stream user_data [] w = ([], Returned ((), w))"
| "run_stream user_data (ev # evs) w =
     (case invoke_stream_callback user_data ev w of
        (ef, Returned (u, w1)) \<Rightarrow>
          (case run_stream user_data evs w1 of (ef', r) \<Rightarrow> (ef @ ef', r))
      | (ef, Fatal_assert) \<Rightarrow> (ef, Fatal_assert)
      | (ef, Invalid_deref) \<Rightarrow> (ef, Invalid_deref)
      | (ef, Blocked) \<Rightarrow> (ef, Blocked)
      | (ef, Invalid_free) \<Rightarrow> (ef, Invalid_free))"

section \<open>Observations on effect traces\<close>

text \<open>The methods invoked on one Java listener object, in order.\<close>

fun listener_event :: "jobject \<Rightarrow> effect \<Rightarrow> jmethodID option" where
  "listener_event l (CallVoidMethod obj m args) = (if obj = l then Some m else None)"
| "listener_event l (CallBooleanMethod obj m args) = (if obj = l then Some m else None)"
| "listener_event l _ = None"

definition listener_events :: "jobject \<Rightarrow> effect list \<Rightarrow> jmethodID list" where
  "listener_events l ef = List.map_filter (listener_event l) ef"

text \<open>
  The stream-complete event is terminal for a listener when it occurs exactly once and
  last.
\<close>

definition complete_is_terminal :: "jmethodID list \<Rightarrow> bool" where
  "complete_is_terminal ms =
     (ms \<noteq> [] \<and> last ms = onResponseComplete \<and>
      length (filter (\<lambda>m. m = onResponseComplete) ms) = 1)"

fun stream_event_method :: "stream_event \<Rightarrow> jmethodID" where
  "stream_event_method (Incoming_headers stream header_array) = onHeaders"
| "stream_event_method (Incoming_header_block_done stream has_body) = onHeadersDone"
| "stream_event_method (Incoming_body stream data) = onResponseBody"
| "stream_event_method (Stream_complete stream error_code) = onResponseComplete"

fun status_readable :: "stream_event \<Rightarrow> bool" where
  "status_readable (Incoming_headers stream header_array) =
     (get_incoming_response_status stream = 0)"
| "status_readable _ = True"

text \<open>The calls into Java made while the manager's mutex is held.\<close>

fun callbacks_under_lock :: "bool \<Rightarrow> effect list \<Rightarrow> effect list" where
  "callbacks_under_lock held [] = []"
| "callbacks_under_lock held (Mutex_lock p # ef) = callbacks_under_lock True ef"
| "callbacks_under_lock held (Mutex_unlock p # ef) = callbacks_under_lock False ef"
| "callbacks_under_lock held (CallVoidMethod obj m args # ef) =
     (if held then CallVoidMethod obj m args # callbacks_under_lock held ef
      else callbacks_under_lock held ef)"
| "callbacks_under_lock held (CallBooleanMethod obj m args # ef) =
     (if held then CallBooleanMethod obj m args # callbacks_under_lock held ef
      else callbacks_under_lock held ef)"
| "callbacks_under_lock held (x # ef) = callbacks_under_lock held ef"

text \<open>Counting the buffers and views a trace allocates.\<close>

fun is_Byte_buf_init :: "effect \<Rightarrow> bool" where
  "is_Byte_buf_init (Byte_buf_init sz) = True"
| "is_Byte_buf_init _ = False"

fun is_Direct_byte_buffer :: "effect \<Rightarrow> bool" where
  "is_Direct_byte_buffer (Direct_byte_buffer_from_byte_buf p) = True"
| "is_Direct_byte_buffer _ = False"

definition pairs_allocated :: "effect list \<Rightarrow> nat \<times> nat" where
  "pairs_allocated ef =
     (length (filter is_Byte_buf_init ef), length (filter is_Direct_byte_buffer ef))"

text \<open>
  An exception is raised; a resource is acquired (native memory, a buffer, a view, a
  global reference, a mutex); work is handed to the HTTP library.
\<close>

fun is_ThrowNew :: "effect \<Rightarrow> bool" where
  "is_ThrowNew (ThrowNew cls msg) = True"
| "is_ThrowNew _ = False"

fun is_acquisition :: "effect \<Rightarrow> bool" where
  "is_acquisition (Mem_acquire p) = True"
| "is_acquisition (Byte_buf_init sz) = True"
| "is_acquisition (Direct_byte_buffer_from_byte_buf p) = True"
| "is_acquisition (NewGlobalRef obj) = True"
| "is_acquisition (Mutex_init p) = True"
| "is_acquisition (Tls_init_from_ctx p) = True"
| "is_acquisition _ = False"

fun is_library_call :: "effect \<Rightarrow> bool" where
  "is_library_call (Http_client_connect opts) = True"
| "is_library_call (Http_stream_new_client_request opts) = True"
| "is_library_call (Connection_manager_new opts) = True"
| "is_library_call (Http_connection_close p) = True"
| "is_library_call _ = False"

definition raises_exception :: "effect list \<Rightarrow> bool" where
  "raises_exception ef = list_ex is_ThrowNew ef"

definition acquires :: "effect list \<Rightarrow> bool" where
  "acquires ef = list_ex is_acquisition ef"

definition calls_library :: "effect list \<Rightarrow> bool" where
  "calls_library ef = list_ex is_library_call ef"

definition pair_alloc_fails :: "pair_alloc \<Rightarrow> bool" where
  "pair_alloc_fails pa =
     (pa_mem pa = 0 \<or> pa_init_result pa \<noteq> AWS_OP_SUCCESS \<or> pa_java_buf pa = JNull)"

section \<open>Example surroundings\<close>

definition example_env :: native_env where
  "example_env =
     \<lparr>aws_default_allocator = 16, aws_last_error_str = ''Success.'',
      GetJavaVM_result = 0, GetJavaVM_vm = 32,
      mem_acquire_manager = 64,
      pair_allocs = (\<lambda>i. \<lparr>pa_mem = 4096 + 64 * of_nat i, pa_init_result = 0,
                             pa_java_buf = JRef (10 + i)\<rparr>),
      connection_manager_new_result = 128,
      mem_acquire_connection = 256,
      uninit_connection =
        \<lparr>native_http_conn = 57005, socket_options = 48879, tls_options = 51966,
         conn_jvm = 64206, java_http_conn = JRef 99, disconnect_requested = True\<rparr>,
      mem_acquire_callback = 512,
      uninit_callback =
        \<lparr>cb_connection = 57005, jni_http_callback_handler = JRef 98,
         java_byte_buffer = JRef 97\<rparr>\<rparr>"

text \<open>The same surroundings, except that no native buffer can be initialised.\<close>

definition exhausted_env :: native_env where
  "exhausted_env =
     example_env\<lparr>pair_allocs :=
       (\<lambda>i. \<lparr>pa_mem = 4096 + 64 * of_nat i, pa_init_result = - 1, pa_java_buf = JNull\<rparr>)\<rparr>"

definition empty_world :: world where
  "empty_world = \<lparr>conns = Map.empty, callbacks = Map.empty, managers = Map.empty, jheap = []\<rparr>"

text \<open>A connection that has been set up, and a request in flight on it.\<close>

definition live_connection :: http_jni_connection where
  "live_connection =
     \<lparr>native_http_conn = 1024, socket_options = 48879, tls_options = 51966,
      conn_jvm = 32, java_http_conn = JRef 2, disconnect_requested = False\<rparr>"

definition connected_world :: world where
  "connected_world =
     empty_world\<lparr>conns := [256 \<mapsto> live_connection],
                  jheap := [Opaque, Opaque, Opaque, Opaque]\<rparr>"

definition streaming_world :: world where
  "streaming_world =
     connected_world\<lparr>callbacks :=
       [512 \<mapsto> \<lparr>cb_connection = 256, jni_http_callback_handler = JRef 3,
                   java_byte_buffer = JNull\<rparr>]\<rparr>"

text \<open>A pool of one connection, as the constructor leaves it.\<close>

definition pooled_world :: world where
  "pooled_world =
     empty_world\<lparr>managers :=
       [64 \<mapsto> \<lparr>rw_lock_held = False, cm_jvm = 32, java_conn_manager = JRef 1,
                  native_conn_manager = 128, max_connections = 1, buf_size = 4096,
                  idle_java_native_buf_pairs =
                    [\<lparr>pair_mem = 4096, native_buf_capacity = 4096, java_buf = JRef 10\<rparr>]\<rparr>]\<rparr>"

text \<open>
  A response stream whose status line can be read (status 200), and one on which
  \<open>aws_http_stream_get_incoming_response_status\<close> fails and leaves \<open>resp_status\<close> as it
  was.
\<close>

definition readable_stream :: aws_http_stream where
  "readable_stream = \<lparr>get_incoming_response_status = 0, resp_status_after = 200\<rparr>"

definition unreadable_stream :: aws_http_stream where
  "unreadable_stream = \<lparr>get_incoming_response_status = 1, resp_status_after = 0\<rparr>"

section \<open>Properties of the pool manager\<close>

declare push_pairs_loop.simps [simp del]

lemma scast_pos_jint:
  assumes "0 <s (m::jint)"
  shows "unat (scast m :: size_t) = nat (sint m)"
proof -
  have a: "0 < sint m" using assms by (simp add: word_sless_alt)
  have b: "sint m < 2 ^ 31" using sint_lt [of m] by simp
  have "(scast m :: size_t) = word_of_int (int (nat (sint m)))"
    using a by (simp only: scast_eq int_nat_eq) simp
  also have "\<dots> = of_nat (nat (sint m))" by (simp only: of_int_of_nat_eq)
  finally have c: "(scast m :: size_t) = of_nat (nat (sint m))" .
  have "nat (sint m) < 2 ^ 64" using a b by simp
  then show ?thesis unfolding c by (simp add: unat_of_nat take_bit_nat_eq_self)
qed

lemma pairs_allocated_append:
  "pairs_allocated (a @ b) =
     (fst (pairs_allocated a) + fst (pairs_allocated b),
      snd (pairs_allocated a) + snd (pairs_allocated b))"
  by (simp add: pairs_allocated_def)

lemma push_pair_returned:
  "aws_push_new_native_java_buf_pair pa lst sz = (ef, Returned lst') \<Longrightarrow>
     length lst' = Suc (length lst) \<and> pairs_allocated ef = (1, 1)"
  by (auto simp: aws_push_new_native_java_buf_pair_def pairs_allocated_def split: if_splits)

lemma push_pairs_loop_returned:
  "push_pairs_loop e maxc sz i lst = (ef, Returned lst') \<Longrightarrow>
     length lst' = length lst + (unat maxc - i) \<and>
     pairs_allocated ef = (unat maxc - i, unat maxc - i)"
proof (induction e maxc sz i lst arbitrary: ef lst' rule: push_pairs_loop.induct)
  case (1 e maxc sz i lst)
  show ?case
  proof (cases "i < unat maxc")
    case False
    with "1.prems" show ?thesis by (simp add: push_pairs_loop.simps pairs_allocated_def)
  next
    case True
    obtain ef1 r1 where p: "aws_push_new_native_java_buf_pair (pair_allocs e i) lst sz = (ef1, r1)"
      by (cases "aws_push_new_native_java_buf_pair (pair_allocs e i) lst sz")
    show ?thesis
    proof (cases r1)
      case (Returned l1)
      obtain ef2 r2 where q: "push_pairs_loop e maxc sz (i + 1) l1 = (ef2, r2)"
        by (cases "push_pairs_loop e maxc sz (i + 1) l1")
      from "1.prems" True p Returned q have r2: "r2 = Returned lst'" and ef: "ef = ef1 @ ef2"
        by (simp_all add: push_pairs_loop.simps [of e maxc sz i lst])
      from "1.IH" [OF True p [symmetric] Returned] q r2
      have ih: "length lst' = length l1 + (unat maxc - (i + 1))"
        "pairs_allocated ef2 = (unat maxc - (i + 1), unat maxc - (i + 1))" by simp_all
      have one: "length l1 = Suc (length lst)" "pairs_allocated ef1 = (1, 1)"
        using push_pair_returned p Returned by blast+
      have "length lst' = length lst + (unat maxc - i)" using True ih(1) one(1) by arith
      moreover have "pairs_allocated ef = (unat maxc - i, unat maxc - i)"
      proof -
        have "Suc (unat maxc - (i + 1)) = unat maxc - i" using True by arith
        then show ?thesis using ih(2) one(2) ef by (simp add: pairs_allocated_append)
      qed
      ultimately show ?thesis by simp
    next
      case Fatal_assert
      with "1.prems" True p show ?thesis by (simp add: push_pairs_loop.simps [of e maxc sz i lst])
    next
      case Invalid_deref
      with "1.prems" True p show ?thesis by (simp add: push_pairs_loop.simps [of e maxc sz i lst])
    next
      case Blocked
      with "1.prems" True p show ?thesis by (simp add: push_pairs_loop.simps [of e maxc sz i lst])
    next
      case Invalid_free
      with "1.prems" True p show ?thesis by (simp add: push_pairs_loop.simps [of e maxc sz i lst])
    qed
  qed
qed

lemma manager_new_returned:
  assumes "httpConnectionManagerNew e obj bs so tls bufsz win ep port maxc w =
             (ef, Returned (h, w'))"
    and "h \<noteq> 0"
  shows "\<exists>ef_pairs pairs mgr.
           0 <s maxc \<and> h = mem_acquire_manager e \<and>
           push_pairs_loop e (scast maxc) (scast bufsz) 0 [] = (ef_pairs, Returned pairs) \<and>
           pairs_allocated ef = pairs_allocated ef_pairs \<and>
           w' = w\<lparr>managers := (managers w)(h \<mapsto> mgr)\<rparr> \<and>
           mgr = \<lparr>rw_lock_held = False, cm_jvm = GetJavaVM_vm e, java_conn_manager = obj,
                   native_conn_manager = connection_manager_new_result e,
                   max_connections = scast maxc, buf_size = scast bufsz,
                   idle_java_native_buf_pairs = pairs\<rparr>"
  using assms
  apply (simp add: httpConnectionManagerNew_def Let_def aws_jni_byte_cursor_from_jstring_def
       split: if_splits prod.splits outcome.splits)
  apply (auto simp: pairs_allocated_def word_sle_eq word_sless_alt)
  done

lemma pool_construction_allocates:
  assumes "httpConnectionManagerNew e obj bs so tls bufsz win ep port maxc w =
             (ef, Returned (h, w'))"
    and "h \<noteq> 0"
  shows "\<exists>mgr.
           deref (managers w') h = Some mgr \<and> \<not> rw_lock_held mgr \<and>
           max_connections mgr = scast maxc \<and>
           unat (max_connections mgr) = nat (sint maxc) \<and> 0 < nat (sint maxc) \<and>
           length (idle_java_native_buf_pairs mgr) = nat (sint maxc) \<and>
           pairs_allocated ef = (nat (sint maxc), nat (sint maxc))"
proof -
  from manager_new_returned [OF assms] obtain ef_pairs pairs mgr where
    pos: "0 <s maxc" and
    loop: "push_pairs_loop e (scast maxc) (scast bufsz) 0 [] = (ef_pairs, Returned pairs)" and
    al: "pairs_allocated ef = pairs_allocated ef_pairs" and
    w': "w' = w\<lparr>managers := (managers w)(h \<mapsto> mgr)\<rparr>" and
    mgr: "mgr = \<lparr>rw_lock_held = False, cm_jvm = GetJavaVM_vm e, java_conn_manager = obj,
                   native_conn_manager = connection_manager_new_result e,
                   max_connections = scast maxc, buf_size = scast bufsz,
                   idle_java_native_buf_pairs = pairs\<rparr>"
    by blast
  have N: "unat (scast maxc :: size_t) = nat (sint maxc)" by (rule scast_pos_jint [OF pos])
  have P: "0 < nat (sint maxc)" using pos by (simp add: word_sless_alt)
  from push_pairs_loop_returned [OF loop] N
  have len: "length pairs = nat (sint maxc)"
    and cnt: "pairs_allocated ef_pairs = (nat (sint maxc), nat (sint maxc))" by simp_all
  have live: "deref (managers w') h = Some mgr" using assms(2) w' by (simp add: deref_def)
  from live mgr N P len cnt al show ?thesis by simp
qed

lemma list_node_is_not_block_start:
  "\<not> aws_mem_release_valid (pair_mem pair) (pair_mem pair + list_handle_offset)"
  by (simp add: aws_mem_release_valid_def list_handle_offset_def)

lemma drain_pairs_first_release:
  "drain_pairs (pair # rest) n =
     ([DeleteGlobalRef (java_buf pair), Byte_buf_clean_up (pair_mem pair),
       Mem_release (pair_mem pair + list_handle_offset)], Invalid_free)"
  using list_node_is_not_block_start [of pair] by (simp add: Let_def)

lemma shutdown_drain_invalid_free:
  assumes "deref (managers w) p = Some m" and "\<not> rw_lock_held m"
    and "idle_java_native_buf_pairs m = pair # rest"
  shows "s_on_http_conn_manager_shutdown_complete_callback p w =
           ([Mutex_lock p] @ aws_jni_get_thread_env (cm_jvm m) @
              [CallVoidMethod (java_conn_manager m) onShutdownComplete [],
               DeleteGlobalRef (java_buf pair), Byte_buf_clean_up (pair_mem pair),
               Mem_release (pair_mem pair + list_handle_offset)],
            Invalid_free)"
  using assms
  by (simp add: s_on_http_conn_manager_shutdown_complete_callback_def Let_def
      drain_pairs_first_release del: drain_pairs.simps)

lemma created_pool_shutdown_invalid_free:
  assumes "httpConnectionManagerNew e obj bs so tls bufsz win ep port maxc w =
             (ef, Returned (h, w'))"
    and "h \<noteq> 0"
  shows "snd (s_on_http_conn_manager_shutdown_complete_callback h w') = Invalid_free"
proof -
  from pool_construction_allocates [OF assms] obtain mgr where
    live: "deref (managers w') h = Some mgr" and unl: "\<not> rw_lock_held mgr" and
    len: "length (idle_java_native_buf_pairs mgr) = nat (sint maxc)" and
    pos: "0 < nat (sint maxc)" by blast
  from len pos obtain pair rest where "idle_java_native_buf_pairs mgr = pair # rest"
    by (cases "idle_java_native_buf_pairs mgr") simp_all
  from shutdown_drain_invalid_free [OF live unl this] show ?thesis by simp
qed

lemma shutdown_count_mismatch_is_fatal:
  assumes "deref (managers w) p = Some m" and "\<not> rw_lock_held m"
    and "idle_java_native_buf_pairs m = []" and "max_connections m \<noteq> 0"
  shows "snd (s_on_http_conn_manager_shutdown_complete_callback p w) = Fatal_assert"
  using assms by (simp add: s_on_http_conn_manager_shutdown_complete_callback_def Let_def)

text \<open>
  C2. A pool of one connection: the constructor returns the handle, having initialised
  one native buffer and made one view, and leaves one buffer pair in the manager. The
  shutdown-complete callback on that pool releases the pair's Java reference and its
  native buffer and then hands \<open>aws_mem_release\<close> the address of the list node, 40 bytes
  into the pair's block: an invalid free. The callback does not return, no pair's block
  is released, and the count assertion is never reached.
\<close>

theorem shutdown_drain_releases_list_node:
  "snd (httpConnectionManagerNew example_env (JRef 1) 1 2 0 4096 65536 ''example.com'' 443 1
          empty_world) = Returned (64, pooled_world) \<and>
   pairs_allocated
     (fst (httpConnectionManagerNew example_env (JRef 1) 1 2 0 4096 65536 ''example.com'' 443 1
             empty_world)) = (1, 1) \<and>
   s_on_http_conn_manager_shutdown_complete_callback 64 pooled_world =
     ([Mutex_lock 64, AttachCurrentThreadAsDaemon 32,
       CallVoidMethod (JRef 1) onShutdownComplete [],
       DeleteGlobalRef (JRef 10), Byte_buf_clean_up 4096, Mem_release 4136],
      Invalid_free)"
proof -
  have new: "httpConnectionManagerNew example_env (JRef 1) 1 2 0 4096 65536 ''example.com''
          443 1 empty_world =
     ([GetStringUTFChars ''example.com'', Mem_acquire 64, Mutex_init 64, Mutex_lock 64,
       NewGlobalRef (JRef 1), Mem_acquire 4096, Byte_buf_init 4096,
       Direct_byte_buffer_from_byte_buf 4096, NewGlobalRef (JRef 10), GetJavaVM,
       Connection_manager_new
         \<lparr>mo_bootstrap = 1, mo_initial_window_size = 65536, mo_socket_options = 2,
          mo_tls_connection_options = None, mo_host = ''example.com'', mo_port = 443,
          mo_max_connections = 1, mo_shutdown_complete_user_data = 64\<rparr>,
       Mutex_unlock 64],
      Returned (64, pooled_world))"
    by (simp add: httpConnectionManagerNew_def example_env_def aws_jni_get_allocator_def
        aws_jni_byte_cursor_from_jstring_def word_sle_eq word_sless_alt Let_def
        push_pairs_loop.simps aws_push_new_native_java_buf_pair_def AWS_OP_SUCCESS_def
        pooled_world_def empty_world_def)
  have cb: "s_on_http_conn_manager_shutdown_complete_callback 64 pooled_world =
     ([Mutex_lock 64, AttachCurrentThreadAsDaemon 32,
       CallVoidMethod (JRef 1) onShutdownComplete [],
       DeleteGlobalRef (JRef 10), Byte_buf_clean_up 4096, Mem_release 4136],
      Invalid_free)"
    by (simp add: s_on_http_conn_manager_shutdown_complete_callback_def pooled_world_def
        empty_world_def deref_def aws_jni_get_thread_env_def Let_def list_handle_offset_def
        aws_mem_release_valid_def)
  from new cb show ?thesis by (simp add: pairs_allocated_def)
qed

lemma throw_effects:
  "raises_exception (aws_jni_throw_runtime_exception e msg)"
  "\<not> acquires (aws_jni_throw_runtime_exception e msg)"
  "\<not> calls_library (aws_jni_throw_runtime_exception e msg)"
  "pairs_allocated (aws_jni_throw_runtime_exception e msg) = (0, 0)"
  by (simp_all add: aws_jni_throw_runtime_exception_def Let_def raises_exception_def
      acquires_def calls_library_def pairs_allocated_def)

text \<open>
  C4. When the bootstrap or the socket options are null, the port is outside 1..65535,
  the window size is not positive or the max connection count is not positive, the
  constructor throws a runtime exception and returns the null handle with the native heap
  unchanged. Its whole trace is the exception, preceded only by the reading of the
  endpoint string when both pointers were non-null: no memory, buffer, view, reference or
  mutex is acquired and the HTTP library is not called. (The default allocator is
  non-null, as \<open>aws_default_allocator\<close> guarantees.)
\<close>

theorem pool_create_precondition_failure:
  assumes "aws_default_allocator e \<noteq> 0"
    and "bs = 0 \<or> so = 0 \<or> port \<le>s 0 \<or> 65535 <s port \<or> win \<le>s 0 \<or> maxc \<le>s 0"
  shows "\<exists>msg.
           httpConnectionManagerNew e obj bs so tls bufsz win ep port maxc w =
             ((if bs = 0 \<or> so = 0 then [] else [GetStringUTFChars ep]) @
                aws_jni_throw_runtime_exception e msg,
              Returned (0, w)) \<and>
           raises_exception
             (fst (httpConnectionManagerNew e obj bs so tls bufsz win ep port maxc w)) \<and>
           \<not> acquires
             (fst (httpConnectionManagerNew e obj bs so tls bufsz win ep port maxc w)) \<and>
           \<not> calls_library
             (fst (httpConnectionManagerNew e obj bs so tls bufsz win ep port maxc w)) \<and>
           pairs_allocated
             (fst (httpConnectionManagerNew e obj bs so tls bufsz win ep port maxc w)) = (0, 0)"
proof -
  have obs: "\<And>pre msg.
      pre = [] \<or> pre = [GetStringUTFChars ep] \<Longrightarrow>
      raises_exception (pre @ aws_jni_throw_runtime_exception e msg) \<and>
      \<not> acquires (pre @ aws_jni_throw_runtime_exception e msg) \<and>
      \<not> calls_library (pre @ aws_jni_throw_runtime_exception e msg) \<and>
      pairs_allocated (pre @ aws_jni_throw_runtime_exception e msg) = (0, 0)"
    using throw_effects [of e]
    by (auto simp: raises_exception_def acquires_def calls_library_def pairs_allocated_def)
  have "\<exists>msg. httpConnectionManagerNew e obj bs so tls bufsz win ep port maxc w =
             ((if bs = 0 \<or> so = 0 then [] else [GetStringUTFChars ep]) @
                aws_jni_throw_runtime_exception e msg,
              Returned (0, w))"
    using assms
    by (auto simp: httpConnectionManagerNew_def Let_def aws_jni_get_allocator_def
        aws_jni_byte_cursor_from_jstring_def)
  then obtain msg where r: "httpConnectionManagerNew e obj bs so tls bufsz win ep port maxc w =
             ((if bs = 0 \<or> so = 0 then [] else [GetStringUTFChars ep]) @
                aws_jni_throw_runtime_exception e msg,
              Returned (0, w))" by blast
  have "(if bs = 0 \<or> so = 0 then [] else [GetStringUTFChars ep]) = [] \<or>
        (if bs = 0 \<or> so = 0 then [] else [GetStringUTFChars ep]) = [GetStringUTFChars ep]"
    by simp
  from obs [OF this, of msg] r show ?thesis by (intro exI [of _ msg]) simp
qed

theorem pool_create_precondition_failure_witness:
  "(\<exists>msg. httpConnectionManagerNew example_env (JRef 1) 1 2 0 4096 65536 ''example.com'' 443 0
             empty_world =
           ([GetStringUTFChars ''example.com''] @ aws_jni_throw_runtime_exception example_env msg,
            Returned (0, empty_world))) \<and>
   \<not> acquires (fst (httpConnectionManagerNew example_env (JRef 1) 1 2 0 4096 65536
                      ''example.com'' 443 0 empty_world)) \<and>
   (\<exists>msg. httpConnectionManagerNew example_env (JRef 1) 1 2 0 4096 65536 ''example.com'' 0 8
             empty_world =
           ([GetStringUTFChars ''example.com''] @ aws_jni_throw_runtime_exception example_env msg,
            Returned (0, empty_world))) \<and>
   pairs_allocated (fst (httpConnectionManagerNew example_env (JRef 1) 1 2 0 4096 65536
                      ''example.com'' 0 8 empty_world)) = (0, 0)"
proof -
  have al: "aws_default_allocator example_env \<noteq> 0" by (simp add: example_env_def)
  have h1: "(1::jlong) = 0 \<or> (2::jlong) = 0 \<or> (443::jint) \<le>s 0 \<or> 65535 <s (443::jint) \<or>
            (65536::jint) \<le>s 0 \<or> (0::jint) \<le>s 0"
    by (simp add: word_sle_eq)
  have h2: "(1::jlong) = 0 \<or> (2::jlong) = 0 \<or> (0::jint) \<le>s 0 \<or> 65535 <s (0::jint) \<or>
            (65536::jint) \<le>s 0 \<or> (8::jint) \<le>s 0"
    by (simp add: word_sle_eq)
  from pool_create_precondition_failure [OF al h1, of "JRef 1" 0 4096 "''example.com''" empty_world]
       pool_create_precondition_failure [OF al h2, of "JRef 1" 0 4096 "''example.com''" empty_world]
  show ?thesis by simp
qed

lemma push_pair_no_exception:
  "\<not> raises_exception (fst (aws_push_new_native_java_buf_pair pa lst sz)) \<and>
   set (filter is_Byte_buf_init (fst (aws_push_new_native_java_buf_pair pa lst sz)))
     \<subseteq> {Byte_buf_init sz}"
  by (auto simp: aws_push_new_native_java_buf_pair_def raises_exception_def)

lemma push_pairs_loop_no_exception:
  "\<not> raises_exception (fst (push_pairs_loop e maxc sz i lst)) \<and>
   set (filter is_Byte_buf_init (fst (push_pairs_loop e maxc sz i lst))) \<subseteq> {Byte_buf_init sz}"
proof (induction e maxc sz i lst rule: push_pairs_loop.induct)
  case (1 e maxc sz i lst)
  show ?case
  proof (cases "i < unat maxc")
    case False
    then show ?thesis by (simp add: push_pairs_loop.simps raises_exception_def)
  next
    case True
    obtain ef1 r1 where p: "aws_push_new_native_java_buf_pair (pair_allocs e i) lst sz = (ef1, r1)"
      by (cases "aws_push_new_native_java_buf_pair (pair_allocs e i) lst sz")
    from push_pair_no_exception [of "pair_allocs e i" lst sz] p
    have one: "\<not> raises_exception ef1" "set (filter is_Byte_buf_init ef1) \<subseteq> {Byte_buf_init sz}"
      by simp_all
    show ?thesis
    proof (cases r1)
      case (Returned l1)
      obtain ef2 r2 where q: "push_pairs_loop e maxc sz (i + 1) l1 = (ef2, r2)"
        by (cases "push_pairs_loop e maxc sz (i + 1) l1")
      from "1.IH" [OF True p [symmetric] Returned] q
      have ih: "\<not> raises_exception ef2" "set (filter is_Byte_buf_init ef2) \<subseteq> {Byte_buf_init sz}"
        by simp_all
      have "fst (push_pairs_loop e maxc sz i lst) = ef1 @ ef2"
        using True p Returned q by (simp add: push_pairs_loop.simps [of e maxc sz i lst])
      with one ih show ?thesis by (simp add: raises_exception_def)
    next
      case Fatal_assert
      with True p have "fst (push_pairs_loop e maxc sz i lst) = ef1"
        by (simp add: push_pairs_loop.simps [of e maxc sz i lst])
      with one show ?thesis by simp
    next
      case Invalid_deref
      with True p have "fst (push_pairs_loop e maxc sz i lst) = ef1"
        by (simp add: push_pairs_loop.simps [of e maxc sz i lst])
      with one show ?thesis by simp
    next
      case Blocked
      with True p have "fst (push_pairs_loop e maxc sz i lst) = ef1"
        by (simp add: push_pairs_loop.simps [of e maxc sz i lst])
      with one show ?thesis by simp
    next
      case Invalid_free
      with True p have "fst (push_pairs_loop e maxc sz i lst) = ef1"
        by (simp add: push_pairs_loop.simps [of e maxc sz i lst])
      with one show ?thesis by simp
    qed
  qed
qed

lemma push_pair_outcome:
  "snd (aws_push_new_native_java_buf_pair pa lst sz) =
     (if pair_alloc_fails pa then Fatal_assert
      else Returned (\<lparr>pair_mem = pa_mem pa, native_buf_capacity = sz,
                       java_buf = pa_java_buf pa\<rparr> # lst))"
  by (simp add: aws_push_new_native_java_buf_pair_def pair_alloc_fails_def)

lemma push_pairs_loop_failure_is_fatal:
  "i \<le> j \<Longrightarrow> j < unat maxc \<Longrightarrow> pair_alloc_fails (pair_allocs e j) \<Longrightarrow>
     snd (push_pairs_loop e maxc sz i lst) = Fatal_assert"
proof (induction e maxc sz i lst rule: push_pairs_loop.induct)
  case (1 e maxc sz i lst)
  from "1.prems" have True: "i < unat maxc" by simp
  obtain ef1 r1 where p: "aws_push_new_native_java_buf_pair (pair_allocs e i) lst sz = (ef1, r1)"
    by (cases "aws_push_new_native_java_buf_pair (pair_allocs e i) lst sz")
  show ?case
  proof (cases "pair_alloc_fails (pair_allocs e i)")
    case True
    with p push_pair_outcome [of "pair_allocs e i" lst sz] have "r1 = Fatal_assert" by simp
    with p \<open>i < unat maxc\<close> show ?thesis
      by (simp add: push_pairs_loop.simps [of e maxc sz i lst])
  next
    case False
    with p push_pair_outcome [of "pair_allocs e i" lst sz]
    obtain l1 where r1: "r1 = Returned l1" by simp
    from False "1.prems" have "i \<noteq> j" by auto
    with "1.prems" have le: "i + 1 \<le> j" by simp
    from "1.IH" [OF True p [symmetric] r1 le "1.prems"(2) "1.prems"(3)]
    have "snd (push_pairs_loop e maxc sz (i + 1) l1) = Fatal_assert" .
    with p r1 True show ?thesis
      by (auto simp: push_pairs_loop.simps [of e maxc sz i lst] split: prod.splits)
  qed
qed

lemma push_pairs_loop_first_init:
  "i < unat maxc \<Longrightarrow> pa_mem (pair_allocs e i) \<noteq> 0 \<Longrightarrow>
     Byte_buf_init sz \<in> set (fst (push_pairs_loop e maxc sz i lst))"
  by (simp add: push_pairs_loop.simps [of e maxc sz i lst] aws_push_new_native_java_buf_pair_def
      split: prod.splits outcome.splits)

lemma scast_nonpos_jint:
  assumes "(b::jint) \<le>s 0"
  shows "(scast b :: size_t) = 0 \<or> 2 ^ 64 - 2 ^ 31 \<le> unat (scast b :: size_t)"
proof (cases "b = 0")
  case True
  then show ?thesis by simp
next
  case False
  have "sint b \<le> 0" using assms by (simp add: word_sle_eq)
  moreover have "sint b \<noteq> 0" using False by (metis sint_0 signed_word_eqI)
  ultimately have neg: "sint b < 0" by simp
  have lo: "- (2 ^ 31) \<le> sint b" using sint_ge [of b] by simp
  have "uint (scast b :: size_t) = sint b mod 2 ^ 64"
    by (simp only: scast_eq uint_word_of_int take_bit_eq_mod) simp
  also have "\<dots> = (sint b + 2 ^ 64) mod 2 ^ 64" by simp
  also have "\<dots> = sint b + 2 ^ 64"
    using neg lo by (intro mod_pos_pos_trivial) simp_all
  finally have "uint (scast b :: size_t) = sint b + 2 ^ 64" .
  then have "unat (scast b :: size_t) = nat (sint b + 2 ^ 64)"
    by (simp add: unat_eq_nat_uint)
  then have "2 ^ 64 - 2 ^ 31 \<le> unat (scast b :: size_t)"
    using lo by simp
  then show ?thesis by simp
qed

text \<open>
  C9. With all other arguments valid and a buffer size that is zero or negative, the
  constructor raises no exception on any path. The only size ever passed to
  \<open>aws_byte_buf_init\<close> is the buffer size converted to \<open>size_t\<close>, which is \<open>0\<close> or at least
  \<open>2 ^ 64 - 2 ^ 31\<close>; it is passed as soon as the manager and the first pair have their
  memory. If any of the \<open>N\<close> pair allocations fails (no memory, a failed buffer
  initialisation, or no direct byte buffer), the call ends in a fatal assertion.
\<close>

theorem pool_create_buffer_size_unchecked:
  assumes "bs \<noteq> 0" and "so \<noteq> 0" and "aws_default_allocator e \<noteq> 0"
    and "0 <s port" and "port \<le>s 65535" and "0 <s win" and "0 <s maxc"
    and "bufsz \<le>s 0"
  shows "\<not> raises_exception
             (fst (httpConnectionManagerNew e obj bs so tls bufsz win ep port maxc w)) \<and>
         set (filter is_Byte_buf_init
                (fst (httpConnectionManagerNew e obj bs so tls bufsz win ep port maxc w)))
           \<subseteq> {Byte_buf_init (scast bufsz)} \<and>
         ((scast bufsz :: size_t) = 0 \<or> 2 ^ 64 - 2 ^ 31 \<le> unat (scast bufsz :: size_t)) \<and>
         (mem_acquire_manager e \<noteq> 0 \<and> pa_mem (pair_allocs e 0) \<noteq> 0 \<longrightarrow>
            Byte_buf_init (scast bufsz)
              \<in> set (fst (httpConnectionManagerNew e obj bs so tls bufsz win ep port maxc w))) \<and>
         (mem_acquire_manager e \<noteq> 0 \<and> i < nat (sint maxc) \<and>
            pair_alloc_fails (pair_allocs e i) \<longrightarrow>
            snd (httpConnectionManagerNew e obj bs so tls bufsz win ep port maxc w) =
              Fatal_assert)"
proof -
  define maxsz where "maxsz = (scast maxc :: size_t)"
  define sz where "sz = (scast bufsz :: size_t)"
  obtain efp rp where loop: "push_pairs_loop e maxsz sz 0 [] = (efp, rp)"
    by (cases "push_pairs_loop e maxsz sz 0 []")
  have valid: "\<not> (port \<le>s 0 \<or> 65535 <s port)" "\<not> win \<le>s 0" "\<not> maxc \<le>s 0"
    using assms(4-7) by (simp_all add: word_sle_eq word_sless_alt)
  have N: "unat maxsz = nat (sint maxc)"
    unfolding maxsz_def by (rule scast_pos_jint [OF assms(7)])
  from push_pairs_loop_no_exception [of e maxsz sz 0 "[]"] loop
  have noex: "\<not> raises_exception efp"
    and sizes: "set (filter is_Byte_buf_init efp) \<subseteq> {Byte_buf_init sz}" by simp_all
  have c1: "\<not> raises_exception
             (fst (httpConnectionManagerNew e obj bs so tls bufsz win ep port maxc w))"
    using assms(1-3) valid loop noex
    by (simp add: httpConnectionManagerNew_def Let_def aws_jni_get_allocator_def
        aws_jni_byte_cursor_from_jstring_def maxsz_def sz_def raises_exception_def
        split: outcome.splits)
  have c2: "set (filter is_Byte_buf_init
                (fst (httpConnectionManagerNew e obj bs so tls bufsz win ep port maxc w)))
           \<subseteq> {Byte_buf_init sz}"
    using assms(1-3) valid loop sizes
    by (auto simp: httpConnectionManagerNew_def Let_def aws_jni_get_allocator_def
        aws_jni_byte_cursor_from_jstring_def maxsz_def sz_def split: outcome.splits)
  have c3: "sz = 0 \<or> 2 ^ 64 - 2 ^ 31 \<le> unat sz"
    unfolding sz_def by (rule scast_nonpos_jint [OF assms(8)])
  have c4: "Byte_buf_init sz
              \<in> set (fst (httpConnectionManagerNew e obj bs so tls bufsz win ep port maxc w))"
    if "mem_acquire_manager e \<noteq> 0 \<and> pa_mem (pair_allocs e 0) \<noteq> 0"
  proof -
    have "0 < unat maxsz" using N assms(7) by (simp add: word_sless_alt)
    from push_pairs_loop_first_init [OF this, of e sz "[]"] that loop
    have "Byte_buf_init sz \<in> set efp" by simp
    with that assms(1-3) valid loop show ?thesis
      by (simp add: httpConnectionManagerNew_def Let_def aws_jni_get_allocator_def
          aws_jni_byte_cursor_from_jstring_def maxsz_def sz_def split: outcome.splits)
  qed
  have c5: "snd (httpConnectionManagerNew e obj bs so tls bufsz win ep port maxc w) =
              Fatal_assert"
    if "mem_acquire_manager e \<noteq> 0 \<and> i < nat (sint maxc) \<and> pair_alloc_fails (pair_allocs e i)"
  proof -
    from that N have "i < unat maxsz" by simp
    from push_pairs_loop_failure_is_fatal [OF _ this, of 0 e sz "[]"] that loop
    have "rp = Fatal_assert" by simp
    with that assms(1-3) valid loop show ?thesis
      by (simp add: httpConnectionManagerNew_def Let_def aws_jni_get_allocator_def
          aws_jni_byte_cursor_from_jstring_def maxsz_def sz_def)
  qed
  from c1 c2 c3 c4 c5 show ?thesis unfolding sz_def by blast
qed

theorem pool_create_buffer_size_unchecked_witness:
  "\<not> raises_exception
       (fst (httpConnectionManagerNew exhausted_env (JRef 1) 1 2 0 (- 1) 65536 ''example.com''
               443 8 empty_world)) \<and>
   Byte_buf_init (scast (- 1 :: jint))
     \<in> set (fst (httpConnectionManagerNew exhausted_env (JRef 1) 1 2 0 (- 1) 65536
                    ''example.com'' 443 8 empty_world)) \<and>
   snd (httpConnectionManagerNew exhausted_env (JRef 1) 1 2 0 (- 1) 65536 ''example.com''
          443 8 empty_world) = Fatal_assert"
proof -
  have h: "(1::jlong) \<noteq> 0" "(2::jlong) \<noteq> 0" "aws_default_allocator exhausted_env \<noteq> 0"
    "0 <s (443::jint)" "(443::jint) \<le>s 65535" "0 <s (65536::jint)" "0 <s (8::jint)"
    "(- 1::jint) \<le>s 0"
    by (simp_all add: exhausted_env_def example_env_def word_sle_eq word_sless_alt)
  have g: "mem_acquire_manager exhausted_env \<noteq> 0"
    "pa_mem (pair_allocs exhausted_env 0) \<noteq> 0"
    "(0::nat) < nat (sint (8::jint))"
    "pair_alloc_fails (pair_allocs exhausted_env 0)"
    by (simp_all add: exhausted_env_def example_env_def pair_alloc_fails_def AWS_OP_SUCCESS_def)
  from pool_create_buffer_size_unchecked
         [OF h, of "JRef 1" 0 "''example.com''" empty_world 0] g
  show ?thesis by simp
qed

section \<open>Properties of the connection\<close>

lemma throw_shape:
  "\<exists>m. aws_jni_throw_runtime_exception e msg =
     [FindClass ''software/amazon/awssdk/crt/CrtRuntimeException'',
      ThrowNew ''software/amazon/awssdk/crt/CrtRuntimeException'' m]"
  by (simp add: aws_jni_throw_runtime_exception_def Let_def)

lemma connect_tls_case:
  assumes "bs \<noteq> 0" and "so \<noteq> 0" and "port \<noteq> 0" and "port \<noteq> 80" and "port \<noteq> 8080"
  shows "Tls_init_from_ctx tls \<in> set (fst (httpConnectionNew e obj bs so tls ep port w)) \<or>
        httpConnectionNew e obj bs so tls ep port w =
          ([GetStringUTFChars ep] @
             aws_jni_throw_runtime_exception e
               ''HttpConnection.httpConnectionNew: jni_tls_ctx_options must not be null'',
           Returned (0, w))"
proof (cases "tls = 0")
  case True
  with assms show ?thesis
    by (simp add: httpConnectionNew_def Let_def aws_jni_byte_cursor_from_jstring_def)
next
  case False
  with assms have "Tls_init_from_ctx tls \<in> set (fst (httpConnectionNew e obj bs so tls ep port w))"
    by (simp add: httpConnectionNew_def Let_def aws_jni_byte_cursor_from_jstring_def)
  then show ?thesis ..
qed

lemma connect_plain_case:
  assumes "bs \<noteq> 0" and "so \<noteq> 0" and "port \<noteq> 0" and "port = 80 \<or> port = 8080"
  shows "Tls_init_from_ctx tls \<notin> set (fst (httpConnectionNew e obj bs so tls ep port w))"
    and "httpConnectionNew e obj bs so tls ep port w \<noteq>
          ([GetStringUTFChars ep] @
             aws_jni_throw_runtime_exception e
               ''HttpConnection.httpConnectionNew: jni_tls_ctx_options must not be null'',
           Returned (0, w))"
proof -
  obtain m1 where m1: "aws_jni_throw_runtime_exception e
       ''HttpConnection.httpConnectionNew: Out of memory allocating JNI connection'' =
     [FindClass ''software/amazon/awssdk/crt/CrtRuntimeException'',
      ThrowNew ''software/amazon/awssdk/crt/CrtRuntimeException'' m1]"
    using throw_shape by blast
  obtain m2 where m2: "aws_jni_throw_runtime_exception e
       ''HttpConnection.httpConnectionNew: jni_tls_ctx_options must not be null'' =
     [FindClass ''software/amazon/awssdk/crt/CrtRuntimeException'',
      ThrowNew ''software/amazon/awssdk/crt/CrtRuntimeException'' m2]"
    using throw_shape by blast
  have plain: "\<not> (port \<noteq> 80 \<and> port \<noteq> 8080)" using assms(4) by blast
  have f: "fst (httpConnectionNew e obj bs so tls ep port w) =
     [GetStringUTFChars ep, Mem_acquire (mem_acquire_connection e)] @
     drop 2 (fst (httpConnectionNew e obj bs so tls ep port w))"
    using assms(1-3) plain
    by (simp add: httpConnectionNew_def Let_def aws_jni_byte_cursor_from_jstring_def)
  have d: "Tls_init_from_ctx tls \<notin> set (drop 2 (fst (httpConnectionNew e obj bs so tls ep port w)))"
    using assms(1-3) plain
    by (simp add: httpConnectionNew_def Let_def aws_jni_byte_cursor_from_jstring_def m1)
  show "Tls_init_from_ctx tls \<notin> set (fst (httpConnectionNew e obj bs so tls ep port w))"
    by (subst f) (use d in simp)
  show "httpConnectionNew e obj bs so tls ep port w \<noteq>
          ([GetStringUTFChars ep] @
             aws_jni_throw_runtime_exception e
               ''HttpConnection.httpConnectionNew: jni_tls_ctx_options must not be null'',
           Returned (0, w))"
  proof
    assume "httpConnectionNew e obj bs so tls ep port w =
          ([GetStringUTFChars ep] @
             aws_jni_throw_runtime_exception e
               ''HttpConnection.httpConnectionNew: jni_tls_ctx_options must not be null'',
           Returned (0, w))"
    then have "fst (httpConnectionNew e obj bs so tls ep port w) =
       [GetStringUTFChars ep, FindClass ''software/amazon/awssdk/crt/CrtRuntimeException'',
      ThrowNew ''software/amazon/awssdk/crt/CrtRuntimeException'' m2]"
      by (simp add: m2)
    with f show False by simp
  qed
qed

text \<open>
  C5. If the port is neither 80 nor 8080 and the TLS context is null, connect throws a
  runtime exception and returns the null handle with the native heap unchanged, having
  acquired nothing and called nothing in the HTTP library. For a call that passes the
  bootstrap, socket-option and port checks, TLS is selected (the TLS options are
  initialised from the context, or the missing context is reported) exactly when the port
  is neither 80 nor 8080; and a call that returns a handle has issued the connect with
  TLS options from the context exactly in that case, zeroed options otherwise.
\<close>

theorem connect_tls_selection:
  "(port \<noteq> 80 \<and> port \<noteq> 8080 \<and> tls = 0 \<longrightarrow>
      (\<exists>msg.
         httpConnectionNew e obj bs so tls ep port w =
           ((if bs = 0 \<or> so = 0 then [] else [GetStringUTFChars ep]) @
              aws_jni_throw_runtime_exception e msg,
            Returned (0, w))) \<and>
      raises_exception (fst (httpConnectionNew e obj bs so tls ep port w)) \<and>
      \<not> acquires (fst (httpConnectionNew e obj bs so tls ep port w)) \<and>
      \<not> calls_library (fst (httpConnectionNew e obj bs so tls ep port w))) \<and>
   (bs \<noteq> 0 \<and> so \<noteq> 0 \<and> port \<noteq> 0 \<longrightarrow>
      ((Tls_init_from_ctx tls \<in> set (fst (httpConnectionNew e obj bs so tls ep port w)) \<or>
        httpConnectionNew e obj bs so tls ep port w =
          ([GetStringUTFChars ep] @
             aws_jni_throw_runtime_exception e
               ''HttpConnection.httpConnectionNew: jni_tls_ctx_options must not be null'',
           Returned (0, w)))
       \<longleftrightarrow> port \<noteq> 80 \<and> port \<noteq> 8080)) \<and>
   (httpConnectionNew e obj bs so tls ep port w = (ef, Returned (h, w')) \<and> h \<noteq> 0 \<longrightarrow>
      (\<exists>opts. Http_client_connect opts \<in> set ef \<and> co_port opts = port \<and>
         co_tls_options opts =
           (if port \<noteq> 80 \<and> port \<noteq> 8080 then Tls_from_ctx tls ep else Tls_zeroed)))"
proof (intro conjI impI)
  assume a: "port \<noteq> 80 \<and> port \<noteq> 8080 \<and> tls = 0"
  then show "\<exists>msg.
         httpConnectionNew e obj bs so tls ep port w =
           ((if bs = 0 \<or> so = 0 then [] else [GetStringUTFChars ep]) @
              aws_jni_throw_runtime_exception e msg,
            Returned (0, w))"
    by (auto simp: httpConnectionNew_def Let_def aws_jni_byte_cursor_from_jstring_def)
  then obtain msg where r: "httpConnectionNew e obj bs so tls ep port w =
           ((if bs = 0 \<or> so = 0 then [] else [GetStringUTFChars ep]) @
              aws_jni_throw_runtime_exception e msg,
            Returned (0, w))" by blast
  from throw_effects [of e msg]
  have "raises_exception ((if bs = 0 \<or> so = 0 then [] else [GetStringUTFChars ep]) @
              aws_jni_throw_runtime_exception e msg) \<and>
        \<not> acquires ((if bs = 0 \<or> so = 0 then [] else [GetStringUTFChars ep]) @
              aws_jni_throw_runtime_exception e msg) \<and>
        \<not> calls_library ((if bs = 0 \<or> so = 0 then [] else [GetStringUTFChars ep]) @
              aws_jni_throw_runtime_exception e msg)"
    by (simp add: raises_exception_def acquires_def calls_library_def)
  with r show "raises_exception (fst (httpConnectionNew e obj bs so tls ep port w))"
    "\<not> acquires (fst (httpConnectionNew e obj bs so tls ep port w))"
    "\<not> calls_library (fst (httpConnectionNew e obj bs so tls ep port w))"
    by simp_all
next
  assume c: "bs \<noteq> 0 \<and> so \<noteq> 0 \<and> port \<noteq> 0"
  show "(Tls_init_from_ctx tls \<in> set (fst (httpConnectionNew e obj bs so tls ep port w)) \<or>
        httpConnectionNew e obj bs so tls ep port w =
          ([GetStringUTFChars ep] @
             aws_jni_throw_runtime_exception e
               ''HttpConnection.httpConnectionNew: jni_tls_ctx_options must not be null'',
           Returned (0, w)))
       \<longleftrightarrow> port \<noteq> 80 \<and> port \<noteq> 8080"
  proof (cases "port = 80 \<or> port = 8080")
    case True
    from c have "bs \<noteq> 0" "so \<noteq> 0" "port \<noteq> 0" by simp_all
    from connect_plain_case [OF this True, where tls = tls and e = e and obj = obj and ep = ep
        and w = w] True show ?thesis by blast
  next
    case False
    then have "port \<noteq> 80" "port \<noteq> 8080" by simp_all
    moreover from c have "bs \<noteq> 0" "so \<noteq> 0" "port \<noteq> 0" by simp_all
    ultimately show ?thesis
      using connect_tls_case [where bs = bs and so = so and port = port and tls = tls
          and e = e and obj = obj and ep = ep and w = w] by blast
  qed
next
  assume "httpConnectionNew e obj bs so tls ep port w = (ef, Returned (h, w')) \<and> h \<noteq> 0"
  then show "\<exists>opts. Http_client_connect opts \<in> set ef \<and> co_port opts = port \<and>
         co_tls_options opts =
           (if port \<noteq> 80 \<and> port \<noteq> 8080 then Tls_from_ctx tls ep else Tls_zeroed)"
    by (auto simp: httpConnectionNew_def Let_def aws_jni_byte_cursor_from_jstring_def
        split: if_splits)
qed

theorem connect_tls_selection_witness:
  "raises_exception
     (fst (httpConnectionNew example_env (JRef 2) 1 2 0 ''example.com'' 443 empty_world)) \<and>
   snd (httpConnectionNew example_env (JRef 2) 1 2 0 ''example.com'' 443 empty_world) =
     Returned (0, empty_world) \<and>
   \<not> calls_library
     (fst (httpConnectionNew example_env (JRef 2) 1 2 0 ''example.com'' 443 empty_world)) \<and>
   Tls_init_from_ctx 7
     \<in> set (fst (httpConnectionNew example_env (JRef 2) 1 2 7 ''example.com'' 443 empty_world)) \<and>
   (\<exists>ef w' opts.
      httpConnectionNew example_env (JRef 2) 1 2 7 ''example.com'' 443 empty_world =
        (ef, Returned (256, w')) \<and>
      Http_client_connect opts \<in> set ef \<and>
      co_tls_options opts = Tls_from_ctx 7 ''example.com'')"
proof -
  have "\<exists>ef w'. httpConnectionNew example_env (JRef 2) 1 2 7 ''example.com'' 443 empty_world =
        (ef, Returned (256, w'))"
    by (simp add: httpConnectionNew_def Let_def aws_jni_byte_cursor_from_jstring_def
        example_env_def)
  then obtain ef w' where
    a: "httpConnectionNew example_env (JRef 2) 1 2 7 ''example.com'' 443 empty_world =
        (ef, Returned (256, w'))" by blast
  have n: "(443::jshort) \<noteq> 80 \<and> (443::jshort) \<noteq> 8080 \<and> (0::jlong) = 0"
    "(1::jlong) \<noteq> 0 \<and> (2::jlong) \<noteq> 0 \<and> (443::jshort) \<noteq> 0" "(256::jlong) \<noteq> 0"
    by simp_all
  from connect_tls_selection
         [of 443 0 example_env "JRef 2" 1 2 "''example.com''" empty_world "[]" 0 empty_world] n
  have p1: "(\<exists>msg.
         httpConnectionNew example_env (JRef 2) 1 2 0 ''example.com'' 443 empty_world =
           ([GetStringUTFChars ''example.com''] @
              aws_jni_throw_runtime_exception example_env msg, Returned (0, empty_world))) \<and>
      raises_exception
        (fst (httpConnectionNew example_env (JRef 2) 1 2 0 ''example.com'' 443 empty_world)) \<and>
      \<not> calls_library
        (fst (httpConnectionNew example_env (JRef 2) 1 2 0 ''example.com'' 443 empty_world))"
    by simp
  then have p1': "snd (httpConnectionNew example_env (JRef 2) 1 2 0 ''example.com'' 443
      empty_world) = Returned (0, empty_world)" by auto
  from connect_tls_selection
         [of 443 7 example_env "JRef 2" 1 2 "''example.com''" empty_world ef 256 w'] a n
  have p2: "Tls_init_from_ctx 7
     \<in> set (fst (httpConnectionNew example_env (JRef 2) 1 2 7 ''example.com'' 443 empty_world))"
    and p3: "\<exists>opts. Http_client_connect opts \<in> set ef \<and>
      co_tls_options opts = Tls_from_ctx 7 ''example.com''"
    by (simp_all add: aws_jni_throw_runtime_exception_def) blast
  from p1 p1' p2 p3 a show ?thesis by blast
qed

text \<open>
  C7. When the connection handle or the listener is null, execute-request does nothing
  but throw a runtime exception: the native heap and the Java heap are unchanged, no
  callback structure or reference is acquired, and no request reaches the HTTP library.
\<close>

theorem execute_request_precondition_failure:
  assumes "jni_connection = 0 \<or> jni_callback_handler = JNull"
  shows "(\<exists>msg.
            httpConnectionExecuteRequest e jni_connection jni_method jni_uri jni_headers
                jni_callback_handler w =
              (aws_jni_throw_runtime_exception e msg, Returned ((), w))) \<and>
         raises_exception
           (fst (httpConnectionExecuteRequest e jni_connection jni_method jni_uri jni_headers
                   jni_callback_handler w)) \<and>
         \<not> acquires
           (fst (httpConnectionExecuteRequest e jni_connection jni_method jni_uri jni_headers
                   jni_callback_handler w)) \<and>
         \<not> calls_library
           (fst (httpConnectionExecuteRequest e jni_connection jni_method jni_uri jni_headers
                   jni_callback_handler w))"
proof -
  have "\<exists>msg.
            httpConnectionExecuteRequest e jni_connection jni_method jni_uri jni_headers
                jni_callback_handler w =
              (aws_jni_throw_runtime_exception e msg, Returned ((), w))"
    using assms by (auto simp: httpConnectionExecuteRequest_def)
  then obtain msg where r: "httpConnectionExecuteRequest e jni_connection jni_method jni_uri
      jni_headers jni_callback_handler w =
        (aws_jni_throw_runtime_exception e msg, Returned ((), w))" by blast
  with throw_effects [of e msg] show ?thesis by auto
qed

theorem execute_request_precondition_failure_witness:
  "(\<exists>msg.
      httpConnectionExecuteRequest example_env 0 ''GET'' ''/'' JNull (JRef 3) connected_world =
        (aws_jni_throw_runtime_exception example_env msg, Returned ((), connected_world))) \<and>
   (\<exists>msg.
      httpConnectionExecuteRequest example_env 256 ''GET'' ''/'' JNull JNull connected_world =
        (aws_jni_throw_runtime_exception example_env msg, Returned ((), connected_world))) \<and>
   \<not> acquires
     (fst (httpConnectionExecuteRequest example_env 256 ''GET'' ''/'' JNull JNull
             connected_world))"
proof -
  have a: "(0::jlong) = 0 \<or> JRef 3 = JNull" by simp
  have b: "(256::jlong) = 0 \<or> JNull = JNull" by simp
  from execute_request_precondition_failure
         [OF a, of example_env "''GET''" "''/''" JNull connected_world]
       execute_request_precondition_failure
         [OF b, of example_env "''GET''" "''/''" JNull connected_world]
  show ?thesis by blast
qed

text \<open>
  C8. On a live connection handle, close sets \<open>disconnect_requested\<close> and asks the HTTP
  library to close the handle's native connection. A second close, right after the
  first, leaves the native heap exactly as the first left it and asks for the close of
  the same native connection.
\<close>

theorem close_idempotent:
  assumes "deref (conns w) h = Some c"
  shows "\<exists>w1.
           httpConnectionClose h w =
             ([Http_connection_close (native_http_conn c)], Returned ((), w1)) \<and>
           httpConnectionClose h w1 =
             ([Http_connection_close (native_http_conn c)], Returned ((), w1)) \<and>
           deref (conns w1) h = Some (c\<lparr>disconnect_requested := True\<rparr>)"
proof -
  from assms have h: "h \<noteq> 0" and c: "conns w h = Some c"
    by (simp_all add: deref_def split: if_splits)
  define w1 where "w1 = w\<lparr>conns := (conns w)(h \<mapsto> c\<lparr>disconnect_requested := True\<rparr>)\<rparr>"
  have 1: "httpConnectionClose h w =
             ([Http_connection_close (native_http_conn c)], Returned ((), w1))"
    using assms by (simp add: httpConnectionClose_def w1_def)
  have 2: "deref (conns w1) h = Some (c\<lparr>disconnect_requested := True\<rparr>)"
    using h by (simp add: deref_def w1_def)
  have 3: "httpConnectionClose h w1 =
             ([Http_connection_close (native_http_conn c)], Returned ((), w1))"
    using 2 by (simp add: httpConnectionClose_def) (simp add: w1_def)
  from 1 2 3 show ?thesis by blast
qed

theorem close_idempotent_witness:
  "\<exists>w1.
     httpConnectionClose 256 connected_world = ([Http_connection_close 1024], Returned ((), w1)) \<and>
     httpConnectionClose 256 w1 = ([Http_connection_close 1024], Returned ((), w1)) \<and>
     deref (conns w1) 256 = Some (live_connection\<lparr>disconnect_requested := True\<rparr>)"
proof -
  have a: "deref (conns connected_world) 256 = Some live_connection"
    by (simp add: connected_world_def empty_world_def deref_def)
  have b: "native_http_conn live_connection = 1024" by (simp add: live_connection_def)
  from close_idempotent [OF a] b show ?thesis by simp
qed

text \<open>
  C10. Close on the null handle raises no exception: it goes straight to the write
  through the handle, which is a crash. Execute-request, acquire, release of the manager
  and release of a connection each answer a null handle with a runtime exception and
  return.
\<close>

theorem close_null_handle_unchecked:
  "httpConnectionClose 0 w = ([], Invalid_deref) \<and>
   \<not> raises_exception (fst (httpConnectionClose 0 w)) \<and>
   raises_exception
     (fst (httpConnectionExecuteRequest e 0 jni_method jni_uri jni_headers handler w)) \<and>
   snd (httpConnectionExecuteRequest e 0 jni_method jni_uri jni_headers handler w) =
     Returned ((), w) \<and>
   raises_exception (fst (httpConnectionManagerAcquireConnection e obj 0 w)) \<and>
   snd (httpConnectionManagerAcquireConnection e obj 0 w) = Returned ((), w) \<and>
   raises_exception (fst (httpConnectionManagerRelease e 0 w)) \<and>
   snd (httpConnectionManagerRelease e 0 w) = Returned ((), w) \<and>
   raises_exception (fst (httpConnectionManagerReleaseConnection e 0 conn w)) \<and>
   snd (httpConnectionManagerReleaseConnection e 0 conn w) = Returned ((), w) \<and>
   raises_exception (fst (httpConnectionManagerReleaseConnection e mgr 0 w)) \<and>
   snd (httpConnectionManagerReleaseConnection e mgr 0 w) = Returned ((), w)"
  using throw_effects(1) [of e]
  by (simp add: httpConnectionClose_def deref_def raises_exception_def
      httpConnectionExecuteRequest_def httpConnectionManagerAcquireConnection_def
      httpConnectionManagerRelease_def httpConnectionManagerReleaseConnection_def)

section \<open>Properties of the response stream\<close>

lemma headers_loop_step:
  "headers_loop h (header # rest) =
     headers_loop
       (h @ [Header (JRef (Suc (length h))) (JRef (Suc (Suc (length h)))),
             ByteArray (fst header), ByteArray (snd header)]) rest"
  by (simp add: jheap_new_def aws_jni_byte_array_from_cursor_def set_header_name_def
      set_header_value_def jheap_get_def nth_append list_update_append)

lemma headers_loop_extends: "\<exists>ext. headers_loop h hs = h @ ext"
proof (induction hs arbitrary: h)
  case Nil
  then show ?case by simp
next
  case (Cons header rest)
  from Cons.IH [of "h @ [Header (JRef (Suc (length h))) (JRef (Suc (Suc (length h)))),
             ByteArray (fst header), ByteArray (snd header)]"]
  obtain ext where "headers_loop
       (h @ [Header (JRef (Suc (length h))) (JRef (Suc (Suc (length h)))),
             ByteArray (fst header), ByteArray (snd header)]) rest =
     (h @ [Header (JRef (Suc (length h))) (JRef (Suc (Suc (length h)))),
             ByteArray (fst header), ByteArray (snd header)]) @ ext" by blast
  then show ?case by (simp only: headers_loop_step append_assoc) blast
qed

lemma headers_array_all_null:
  assumes "s_java_headers_array_from_native callback header_array w = (ef, Returned (arr, w'))"
  shows "jheap_get (jheap w') arr = Some (ObjectArray (replicate (length header_array) JNull))"
proof -
  obtain ext where e: "headers_loop
      (jheap w @ [ObjectArray (replicate (length header_array) JNull)]) header_array =
      (jheap w @ [ObjectArray (replicate (length header_array) JNull)]) @ ext"
    using headers_loop_extends by blast
  from assms have "arr = JRef (length (jheap w))"
    and "jheap w' = headers_loop
      (jheap w @ [ObjectArray (replicate (length header_array) JNull)]) header_array"
    by (auto simp: s_java_headers_array_from_native_def Let_def jheap_new_def
        split: option.splits)
  with e show ?thesis by (simp add: jheap_get_def nth_append)
qed

text \<open>
  C3. The headers-received event for a response whose header block is
  \<open>("X-Test", "1")\<close>: the listener's \<open>onHeaders\<close> is called with status 200 and an array of
  one element, and that element is null. The header object holding the two byte arrays
  was created and filled, but never stored into the array, so the array delivered holds
  no entry named \<open>X-Test\<close>.
\<close>

theorem headers_event_array_has_null_entries:
  "s_on_incoming_headers_fn readable_stream [(''X-Test'', ''1'')] 512 streaming_world =
     ([AttachCurrentThreadAsDaemon 32, AttachCurrentThreadAsDaemon 32,
       CallVoidMethod (JRef 3) onHeaders [JInt 200, JObj (JRef 4)]],
      Returned ((), streaming_world\<lparr>jheap :=
         [Opaque, Opaque, Opaque, Opaque, ObjectArray [JNull], Header (JRef 6) (JRef 7),
          ByteArray ''X-Test'', ByteArray ''1'']\<rparr>))"
  by (simp add: s_on_incoming_headers_fn_def s_java_headers_array_from_native_def
      streaming_world_def connected_world_def empty_world_def live_connection_def deref_def
      readable_stream_def aws_jni_get_thread_env_def Let_def jheap_new_def
      aws_jni_byte_array_from_cursor_def set_header_name_def set_header_value_def jheap_get_def)

lemma listener_events_append:
  "listener_events l (a @ b) = listener_events l a @ listener_events l b"
  by (simp add: listener_events_def List.map_filter_def)

lemma invoke_stream_callback_live:
  assumes "deref (callbacks w) p = Some cb"
    and "deref (conns w) (cb_connection cb) = Some c"
  shows "\<exists>ef w'.
           invoke_stream_callback p ev w = (ef, Returned ((), w')) \<and>
           callbacks w' = callbacks w \<and> conns w' = conns w \<and>
           listener_events (jni_http_callback_handler cb) ef =
             (if status_readable ev then [stream_event_method ev]
              else [onResponseComplete, onHeaders])"
proof (cases ev)
  case (Incoming_headers stream header_array)
  with assms show ?thesis
    by (simp add: s_on_incoming_headers_fn_def s_java_headers_array_from_native_def Let_def
        jheap_new_def aws_jni_get_thread_env_def listener_events_def)
next
  case (Incoming_header_block_done stream has_body)
  with assms show ?thesis
    by (simp add: s_on_incoming_header_block_done_fn_def aws_jni_get_thread_env_def
        listener_events_def)
next
  case (Incoming_body stream data)
  with assms show ?thesis
    by (simp add: s_on_incoming_body_fn_def aws_jni_get_thread_env_def Let_def
        aws_jni_byte_buffer_copy_from_cursor_def aws_jni_byte_array_from_cursor_def
        jheap_new_def listener_events_def)
next
  case (Stream_complete stream error_code)
  with assms show ?thesis
    by (simp add: s_on_stream_complete_fn_def aws_jni_get_thread_env_def
        listener_events_def)
qed

lemma run_stream_live:
  assumes "deref (callbacks w) p = Some cb"
    and "deref (conns w) (cb_connection cb) = Some c"
    and "list_all status_readable evs"
  shows "\<exists>ef w'.
           run_stream p evs w = (ef, Returned ((), w')) \<and>
           listener_events (jni_http_callback_handler cb) ef = map stream_event_method evs"
  using assms
proof (induction evs arbitrary: w)
  case Nil
  then show ?case by (simp add: listener_events_def)
next
  case (Cons ev evs)
  from invoke_stream_callback_live [OF Cons.prems(1,2), of ev] Cons.prems(3)
  obtain ef1 w1 where
    1: "invoke_stream_callback p ev w = (ef1, Returned ((), w1))" and
    k: "callbacks w1 = callbacks w" "conns w1 = conns w" and
    l: "listener_events (jni_http_callback_handler cb) ef1 = [stream_event_method ev]"
    by auto
  from Cons.prems k have "deref (callbacks w1) p = Some cb"
    "deref (conns w1) (cb_connection cb) = Some c" "list_all status_readable evs"
    by (simp_all add: deref_def)
  from Cons.IH [OF this] obtain ef2 w2 where
    2: "run_stream p evs w1 = (ef2, Returned ((), w2))" and
    m: "listener_events (jni_http_callback_handler cb) ef2 = map stream_event_method evs"
    by blast
  from 1 2 l m show ?case by (simp add: listener_events_append)
qed

lemma stream_complete_terminal_when_status_readable:
  assumes "deref (callbacks w) p = Some cb"
    and "deref (conns w) (cb_connection cb) = Some c"
    and "list_all status_readable (pre @ [Stream_complete stream code])"
    and "filter (\<lambda>ev. stream_event_method ev = onResponseComplete) pre = []"
  shows "complete_is_terminal
           (listener_events (jni_http_callback_handler cb)
              (fst (run_stream p (pre @ [Stream_complete stream code]) w)))"
proof -
  from run_stream_live [OF assms(1-3)]
  have "listener_events (jni_http_callback_handler cb)
              (fst (run_stream p (pre @ [Stream_complete stream code]) w)) =
        map stream_event_method pre @ [onResponseComplete]" by auto
  moreover have "filter (\<lambda>m. m = onResponseComplete) (map stream_event_method pre) = []"
    using assms(4) by (simp add: filter_map comp_def)
  ultimately show ?thesis by (simp add: complete_is_terminal_def)
qed

text \<open>
  C1. A request whose first headers callback finds the response status unreadable: the
  listener receives \<open>onResponseComplete\<close>, then \<open>onHeaders\<close> and \<open>onHeadersDone\<close>, then
  \<open>onResponseComplete\<close> again when the stream completes. The stream-complete event is
  delivered twice and is followed by header events.
\<close>

theorem stream_complete_followed_by_headers:
  "listener_events (JRef 3)
     (fst (run_stream 512
             [Incoming_headers unreadable_stream [],
              Incoming_header_block_done unreadable_stream False,
              Stream_complete unreadable_stream 0] streaming_world)) =
     [onResponseComplete, onHeaders, onHeadersDone, onResponseComplete] \<and>
   \<not> complete_is_terminal
       (listener_events (JRef 3)
          (fst (run_stream 512
                  [Incoming_headers unreadable_stream [],
                   Incoming_header_block_done unreadable_stream False,
                   Stream_complete unreadable_stream 0] streaming_world)))"
proof -
  have "listener_events (JRef 3)
     (fst (run_stream 512
             [Incoming_headers unreadable_stream [],
              Incoming_header_block_done unreadable_stream False,
              Stream_complete unreadable_stream 0] streaming_world)) =
     [onResponseComplete, onHeaders, onHeadersDone, onResponseComplete]"
    by (simp add: s_on_incoming_headers_fn_def s_java_headers_array_from_native_def
      s_on_incoming_header_block_done_fn_def s_on_stream_complete_fn_def
      streaming_world_def connected_world_def empty_world_def live_connection_def deref_def
      unreadable_stream_def aws_jni_get_thread_env_def Let_def jheap_new_def
      listener_events_def)
  then show ?thesis by (simp add: complete_is_terminal_def)
qed

section \<open>The manager's lock and calls into Java\<close>

lemma drain_pairs_no_callbacks:
  "callbacks_under_lock held (fst (drain_pairs lst n) @ rest) = callbacks_under_lock held rest"
proof (induction lst arbitrary: n)
  case Nil
  then show ?case by simp
next
  case (Cons pair lst)
  obtain ef1 r1 where d: "drain_pairs lst (n + 1) = (ef1, r1)"
    by (cases "drain_pairs lst (n + 1)")
  from Cons.IH [of "n + 1"] d
  have "callbacks_under_lock held (ef1 @ rest) = callbacks_under_lock held rest" by simp
  with d show ?case by (simp add: Let_def)
qed

lemma shutdown_complete_calls_java_under_lock:
  assumes "deref (managers w) p = Some m" and "\<not> rw_lock_held m"
  shows "callbacks_under_lock False
           (fst (s_on_http_conn_manager_shutdown_complete_callback p w)) =
         [CallVoidMethod (java_conn_manager m) onShutdownComplete []]"
proof -
  obtain efd r where d: "drain_pairs (idle_java_native_buf_pairs m) 0 = (efd, r)"
    by (cases "drain_pairs (idle_java_native_buf_pairs m) 0")
  from drain_pairs_no_callbacks [of True "idle_java_native_buf_pairs m" 0] d
  have nc: "\<And>rest. callbacks_under_lock True (efd @ rest) = callbacks_under_lock True rest"
    by simp
  from nc [of "[]"] have nc0: "callbacks_under_lock True efd = []" by simp
  show ?thesis
    using assms d nc nc0
    by (simp add: s_on_http_conn_manager_shutdown_complete_callback_def Let_def
        aws_jni_get_thread_env_def split: outcome.splits)
qed

lemma acquisition_callback_not_under_lock:
  "callbacks_under_lock False (fst (s_on_http_conn_acquisition_callback conn code p w)) = []"
  by (simp add: s_on_http_conn_acquisition_callback_def aws_jni_get_thread_env_def
      split: option.splits)

lemma manager_release_pairs_lock:
  assumes "deref (managers w) p = Some m" and "\<not> rw_lock_held m" and "p \<noteq> 0"
  shows "fst (httpConnectionManagerRelease e p w) =
           [Mutex_lock p, Connection_manager_release (native_conn_manager m), Mutex_unlock p]"
  using assms by (simp add: httpConnectionManagerRelease_def Let_def)

text \<open>
  C6. The shutdown-complete callback of a pool of one connection: it takes the manager's
  mutex first and calls Java's \<open>onShutdownComplete\<close> next, so the call into caller code
  is made with the mutex held; nothing after the call unlocks it.
\<close>

theorem shutdown_complete_callback_holds_lock:
  "fst (s_on_http_conn_manager_shutdown_complete_callback 64 pooled_world) =
     [Mutex_lock 64, AttachCurrentThreadAsDaemon 32,
      CallVoidMethod (JRef 1) onShutdownComplete [],
      DeleteGlobalRef (JRef 10), Byte_buf_clean_up 4096, Mem_release 4136] \<and>
   callbacks_under_lock False
     (fst (s_on_http_conn_manager_shutdown_complete_callback 64 pooled_world)) =
     [CallVoidMethod (JRef 1) onShutdownComplete []]"
  by (simp add: s_on_http_conn_manager_shutdown_complete_callback_def pooled_world_def
      empty_world_def deref_def aws_jni_get_thread_env_def Let_def list_handle_offset_def
      aws_mem_release_valid_def)

end
